theory Spec2Isabelle
  imports Complex_Main
begin

chapter \<open>The polyline viewer/editor: geometry normalisation, viewport and editing\<close>

text \<open>
  The component keeps a list of polyline items, a viewport rectangle and a selection, and
  mutates them from pointer, keyboard and command-line events. The model below follows the
  script of the component function by function. Mutable refs become fields of one state
  record that every operation takes and returns; a thrown exception becomes a value.
\<close>

section \<open>Numbers\<close>

text \<open>
  A number of the source is a double. The model keeps the three special values apart from
  the finite ones, which are reals here. An arithmetic operation on finite values computes
  the real result and hands it to the platform's rounding (section Rounding); comparisons,
  negation, the absolute value, maximum and minimum are exact, as they are on doubles. The
  special values follow IEEE 754: they are what \<open>Number.isFinite\<close> rejects. The sign
  of zero is not modelled.
\<close>

datatype jsnum = Fin real | PInf | NInf | NaN

fun isFinite :: "jsnum \<Rightarrow> bool" where
  "isFinite (Fin _) = True"
| "isFinite _ = False"

fun num_neg :: "jsnum \<Rightarrow> jsnum" where
  "num_neg (Fin a) = Fin (- a)"
| "num_neg PInf = NInf"
| "num_neg NInf = PInf"
| "num_neg NaN = NaN"

fun num_add :: "jsnum \<Rightarrow> jsnum \<Rightarrow> jsnum" where
  "num_add (Fin a) (Fin b) = Fin (a + b)"
| "num_add NaN _ = NaN"
| "num_add _ NaN = NaN"
| "num_add PInf NInf = NaN"
| "num_add NInf PInf = NaN"
| "num_add PInf _ = PInf"
| "num_add _ PInf = PInf"
| "num_add NInf _ = NInf"
| "num_add _ NInf = NInf"

fun num_sub :: "jsnum \<Rightarrow> jsnum \<Rightarrow> jsnum" where
  "num_sub a b = num_add a (num_neg b)"

fun num_sign :: "jsnum \<Rightarrow> int" where
  "num_sign (Fin a) = (if a > 0 then 1 else if a < 0 then - 1 else 0)"
| "num_sign PInf = 1"
| "num_sign NInf = - 1"
| "num_sign NaN = 0"

fun num_mul :: "jsnum \<Rightarrow> jsnum \<Rightarrow> jsnum" where
  "num_mul (Fin a) (Fin b) = Fin (a * b)"
| "num_mul NaN _ = NaN"
| "num_mul _ NaN = NaN"
| "num_mul a b =
     (let s = num_sign a * num_sign b
      in if s = 0 then NaN else if s > 0 then PInf else NInf)"

fun num_div :: "jsnum \<Rightarrow> jsnum \<Rightarrow> jsnum" where
  "num_div NaN _ = NaN"
| "num_div _ NaN = NaN"
| "num_div (Fin a) (Fin b) =
     (if b \<noteq> 0 then Fin (a / b)
      else if a = 0 then NaN else if a > 0 then PInf else NInf)"
| "num_div (Fin a) _ = Fin 0"
| "num_div PInf (Fin b) = (if b \<ge> 0 then PInf else NInf)"
| "num_div NInf (Fin b) = (if b \<ge> 0 then NInf else PInf)"
| "num_div _ _ = NaN"

fun num_lt :: "jsnum \<Rightarrow> jsnum \<Rightarrow> bool" where
  "num_lt (Fin a) (Fin b) = (a < b)"
| "num_lt NaN _ = False"
| "num_lt _ NaN = False"
| "num_lt PInf _ = False"
| "num_lt _ NInf = False"
| "num_lt _ _ = True"

fun num_le :: "jsnum \<Rightarrow> jsnum \<Rightarrow> bool" where
  "num_le (Fin a) (Fin b) = (a \<le> b)"
| "num_le NaN _ = False"
| "num_le _ NaN = False"
| "num_le NInf _ = True"
| "num_le _ PInf = True"
| "num_le _ _ = False"

fun num_eq :: "jsnum \<Rightarrow> jsnum \<Rightarrow> bool" where
  "num_eq NaN _ = False"
| "num_eq _ NaN = False"
| "num_eq a b = (a = b)"

fun num_max :: "jsnum \<Rightarrow> jsnum \<Rightarrow> jsnum" where
  "num_max NaN _ = NaN"
| "num_max _ NaN = NaN"
| "num_max a b = (if num_lt a b then b else a)"

fun num_min :: "jsnum \<Rightarrow> jsnum \<Rightarrow> jsnum" where
  "num_min NaN _ = NaN"
| "num_min _ NaN = NaN"
| "num_min a b = (if num_lt b a then b else a)"

fun num_abs :: "jsnum \<Rightarrow> jsnum" where
  "num_abs (Fin a) = Fin \<bar>a\<bar>"
| "num_abs PInf = PInf"
| "num_abs NInf = PInf"
| "num_abs NaN = NaN"

fun num_exp :: "jsnum \<Rightarrow> jsnum" where
  "num_exp (Fin a) = Fin (exp a)"
| "num_exp PInf = PInf"
| "num_exp NInf = Fin 0"
| "num_exp NaN = NaN"

fun num_cos :: "jsnum \<Rightarrow> jsnum" where
  "num_cos (Fin a) = Fin (cos a)"
| "num_cos _ = NaN"

fun num_sin :: "jsnum \<Rightarrow> jsnum" where
  "num_sin (Fin a) = Fin (sin a)"
| "num_sin _ = NaN"

fun num_ceil :: "jsnum \<Rightarrow> jsnum" where
  "num_ceil (Fin a) = Fin (of_int \<lceil>a\<rceil>)"
| "num_ceil n = n"

fun isInteger :: "jsnum \<Rightarrow> bool" where
  "isInteger (Fin a) = (of_int \<lfloor>a\<rfloor> = a)"
| "isInteger _ = False"

text \<open>A number is falsy when it is zero or NaN.\<close>

fun num_truthy :: "jsnum \<Rightarrow> bool" where
  "num_truthy (Fin a) = (a \<noteq> 0)"
| "num_truthy NaN = False"
| "num_truthy _ = True"

section \<open>Rounding\<close>

text \<open>
  The arithmetic of the platform: \<open>rnd\<close> rounds the real result of an addition,
  subtraction, multiplication or division to a double, or to an infinity when it
  overflows; \<open>m_exp\<close>, \<open>m_cos\<close> and \<open>m_sin\<close> are \<open>Math.exp\<close>, \<open>Math.cos\<close> and
  \<open>Math.sin\<close> on a finite argument. They are parameters of the model: a theorem that
  holds for every arithmetic holds for the platform's. The operations below apply the
  exact operation of the previous section and round a finite result.
\<close>

record Arith =
  rnd :: "real \<Rightarrow> jsnum"
  m_exp :: "real \<Rightarrow> jsnum"
  m_cos :: "real \<Rightarrow> jsnum"
  m_sin :: "real \<Rightarrow> jsnum"

fun rounded :: "Arith \<Rightarrow> jsnum \<Rightarrow> jsnum" where
  "rounded ar (Fin a) = rnd ar a"
| "rounded ar n = n"

definition fl_add :: "Arith \<Rightarrow> jsnum \<Rightarrow> jsnum \<Rightarrow> jsnum" where
  "fl_add ar a b = rounded ar (num_add a b)"

definition fl_sub :: "Arith \<Rightarrow> jsnum \<Rightarrow> jsnum \<Rightarrow> jsnum" where
  "fl_sub ar a b = rounded ar (num_sub a b)"

definition fl_mul :: "Arith \<Rightarrow> jsnum \<Rightarrow> jsnum \<Rightarrow> jsnum" where
  "fl_mul ar a b = rounded ar (num_mul a b)"

definition fl_div :: "Arith \<Rightarrow> jsnum \<Rightarrow> jsnum \<Rightarrow> jsnum" where
  "fl_div ar a b = rounded ar (num_div a b)"

fun fl_exp :: "Arith \<Rightarrow> jsnum \<Rightarrow> jsnum" where
  "fl_exp ar (Fin a) = m_exp ar a"
| "fl_exp ar n = num_exp n"

fun fl_cos :: "Arith \<Rightarrow> jsnum \<Rightarrow> jsnum" where
  "fl_cos ar (Fin a) = m_cos ar a"
| "fl_cos ar n = NaN"

fun fl_sin :: "Arith \<Rightarrow> jsnum \<Rightarrow> jsnum" where
  "fl_sin ar (Fin a) = m_sin ar a"
| "fl_sin ar n = NaN"

text \<open>
  The arithmetic without rounding. It agrees with the platform's wherever every result is
  a double, as in the examples of this theory, whose values are small integers and halves.
\<close>

definition exact :: Arith where
  "exact = \<lparr>rnd = Fin, m_exp = (\<lambda>a. Fin (exp a)), m_cos = (\<lambda>a. Fin (cos a)),
            m_sin = (\<lambda>a. Fin (sin a))\<rparr>"

text \<open>The doubles that the decimal literals of the source denote, and \<open>Math.PI\<close>.\<close>

definition dbl_1e_6 :: real where
  "dbl_1e_6 = 4722366482869645 / 4722366482869645213696"

definition dbl_0_05 :: real where
  "dbl_0_05 = 3602879701896397 / 72057594037927936"


definition dbl_0_1 :: real where
  "dbl_0_1 = 3602879701896397 / 36028797018963968"

definition dbl_0_8 :: real where
  "dbl_0_8 = 3602879701896397 / 4503599627370496"

definition dbl_0_01 :: real where
  "dbl_0_01 = 5764607523034235 / 576460752303423488"

definition dbl_PI :: real where
  "dbl_PI = 884279719003555 / 281474976710656"

section \<open>Strings\<close>

text \<open>
  A string of the source is a \<open>string\<close> here. White space is the ASCII white space that
  \<open>trim\<close> and the pattern \<open>\s\<close> recognise; the white space characters beyond ASCII
  have no counterpart in the character type.
\<close>

definition is_space :: "char \<Rightarrow> bool" where
  "is_space c = (c \<in> set [CHR '' '', CHR 0x09, CHR 0x0A, CHR 0x0B, CHR 0x0C, CHR 0x0D])"

definition trim :: "string \<Rightarrow> string" where
  "trim s = rev (dropWhile is_space (rev (dropWhile is_space s)))"

definition lower_char :: "char \<Rightarrow> char" where
  "lower_char c =
     (case map_of (zip ''ABCDEFGHIJKLMNOPQRSTUVWXYZ'' ''abcdefghijklmnopqrstuvwxyz'') c of
        Some d \<Rightarrow> d
      | None \<Rightarrow> c)"

definition toLowerCase :: "string \<Rightarrow> string" where
  "toLowerCase s = map lower_char s"

fun join :: "string \<Rightarrow> string list \<Rightarrow> string" where
  "join sep [] = []"
| "join sep [x] = x"
| "join sep (x # y # ys) = x @ sep @ join sep (y # ys)"

definition digit_char :: "nat \<Rightarrow> char" where
  "digit_char d = ''0123456789abcdefghijklmnopqrstuvwxyz'' ! d"

text \<open>\<open>n.toString(radix)\<close> of a non-negative integer, for a radix from 2 to 36.\<close>

function digits_in :: "nat \<Rightarrow> nat \<Rightarrow> string" where
  "digits_in radix n =
     (if radix < 2 \<or> n < radix then [digit_char n]
      else digits_in radix (n div radix) @ [digit_char (n mod radix)])"
  by pat_completeness auto
termination
  by (relation "measure (\<lambda>(radix, n). n)") auto

declare digits_in.simps [simp del]

definition decimal :: "nat \<Rightarrow> string" where
  "decimal n = digits_in 10 n"

section \<open>Untyped input values\<close>

text \<open>
  Parser output and parsed JSON reach the normaliser as values of unknown shape. An object
  is the list of its own properties; reading a property that is not there gives
  \<open>undefined\<close>.
\<close>

datatype jsval =
    JUndefined
  | JNull
  | JBool bool
  | JNum jsnum
  | JStr string
  | JArr "jsval list"
  | JObj "(string \<times> jsval) list"

fun truthy :: "jsval \<Rightarrow> bool" where
  "truthy JUndefined = False"
| "truthy JNull = False"
| "truthy (JBool b) = b"
| "truthy (JNum n) = num_truthy n"
| "truthy (JStr s) = (s \<noteq> [])"
| "truthy (JArr _) = True"
| "truthy (JObj _) = True"

text \<open>\<open>asRecord\<close>: a truthy value whose \<open>typeof\<close> is \<open>'object'\<close>, so an object or an array.\<close>

fun asRecord :: "jsval \<Rightarrow> jsval option" where
  "asRecord (JObj kvs) = Some (JObj kvs)"
| "asRecord (JArr xs) = Some (JArr xs)"
| "asRecord _ = None"

text \<open>
  \<open>r?.k\<close> for a property name \<open>k\<close> that is not an index: an array has no such
  property.
\<close>

fun getProp :: "jsval option \<Rightarrow> string \<Rightarrow> jsval" where
  "getProp (Some (JObj kvs)) k = (case map_of kvs k of Some v \<Rightarrow> v | None \<Rightarrow> JUndefined)"
| "getProp _ k = JUndefined"

text \<open>\<open>v ?? d\<close>.\<close>

fun nullish_or :: "jsval \<Rightarrow> jsval \<Rightarrow> jsval" where
  "nullish_or JUndefined d = d"
| "nullish_or JNull d = d"
| "nullish_or v d = v"

text \<open>
  \<open>Number(v)\<close>. On a string, an array or an object the conversion is the platform's
  (the numeric-string grammar, \<open>ToPrimitive\<close>); it is the parameter \<open>conv\<close>.
\<close>

fun Number :: "(jsval \<Rightarrow> jsnum) \<Rightarrow> jsval \<Rightarrow> jsnum" where
  "Number conv JUndefined = NaN"
| "Number conv JNull = Fin 0"
| "Number conv (JBool b) = Fin (if b then 1 else 0)"
| "Number conv (JNum n) = n"
| "Number conv v = conv v"

section \<open>Data model\<close>

type_synonym Point = "jsnum \<times> jsnum"
type_synonym Polyline = "Point list"

text \<open>A point of the data model has two finite coordinates.\<close>

definition finitePoint :: "Point \<Rightarrow> bool" where
  "finitePoint p = (isFinite (fst p) \<and> isFinite (snd p))"

datatype LayerLineType = Solid | Dash | Dot | Dashdot

record PolylineLineOverride =
  ovr_type :: "LayerLineType option"
  ovr_color :: "string option"
  ovr_width :: "jsnum option"

record PolylineItem =
  item_id :: string
  layer :: string
  item_type :: string
  points :: Polyline
  visible :: "bool option"
  entityIndex :: "nat option"
  lineOverride :: "PolylineLineOverride option"
  source :: "jsval option"

text \<open>
  \<open>visiblePolylineItems\<close>: the items whose layer is among the selected layers and whose
  own \<open>visible\<close> flag is not false.
\<close>

definition visiblePolylineItems :: "string list \<Rightarrow> PolylineItem list \<Rightarrow> PolylineItem list" where
  "visiblePolylineItems selectedLayers items =
     filter (\<lambda>it. layer it \<in> set selectedLayers \<and> (case visible it of None \<Rightarrow> True | Some b \<Rightarrow> b))
       items"

section \<open>DXF export\<close>

definition polylineClosedFlag :: "Arith \<Rightarrow> Polyline \<Rightarrow> bool \<times> Polyline" where
  "polylineClosedFlag ar pl =
     (if length pl < 3 then (False, pl)
      else
        let tol = Fin dbl_1e_6;
            first = pl ! 0;
            last = pl ! (length pl - 1);
            closed = (num_lt (num_abs (fl_sub ar (fst first) (fst last))) tol \<and>
                      num_lt (num_abs (fl_sub ar (snd first) (snd last))) tol)
        in (closed, if closed then butlast pl else pl))"

definition pushPair :: "string \<Rightarrow> string \<Rightarrow> string list" where
  "pushPair code v = [code, v]"

text \<open>
  The body of the loop of \<open>toDxfString\<close> for one item: nothing for an item whose vertex
  list is shorter than 2, else one LWPOLYLINE record. \<open>numStr\<close> is \<open>String\<close> on a
  coordinate.
\<close>

definition dxfEntity :: "Arith \<Rightarrow> (jsnum \<Rightarrow> string) \<Rightarrow> PolylineItem \<Rightarrow> string list" where
  "dxfEntity ar numStr it =
     (let (closed, vertices) = polylineClosedFlag ar (points it)
      in if length vertices < 2 then []
         else
           pushPair ''0'' ''LWPOLYLINE'' @
           pushPair ''100'' ''AcDbEntity'' @
           pushPair ''8'' (if layer it = [] then ''0'' else layer it) @
           pushPair ''100'' ''AcDbPolyline'' @
           pushPair ''90'' (decimal (length vertices)) @
           pushPair ''70'' (if closed then ''1'' else ''0'') @
           concat (map (\<lambda>(x, y). pushPair ''10'' (numStr x) @ pushPair ''20'' (numStr y)) vertices))"

definition toDxfLines :: "Arith \<Rightarrow> (jsnum \<Rightarrow> string) \<Rightarrow> PolylineItem list \<Rightarrow> string list" where
  "toDxfLines ar numStr visibleItems =
     pushPair ''0'' ''SECTION'' @
     pushPair ''2'' ''HEADER'' @
     pushPair ''9'' ''$ACADVER'' @
     pushPair ''1'' ''AC1027'' @
     pushPair ''0'' ''ENDSEC'' @
     pushPair ''0'' ''SECTION'' @
     pushPair ''2'' ''ENTITIES'' @
     concat (map (dxfEntity ar numStr) visibleItems) @
     pushPair ''0'' ''ENDSEC'' @
     pushPair ''0'' ''EOF''"

definition toDxfString :: "Arith \<Rightarrow> (jsnum \<Rightarrow> string) \<Rightarrow> string list \<Rightarrow> PolylineItem list \<Rightarrow> string" where
  "toDxfString ar numStr selectedLayers items =
     join [CHR 0x0A] (toDxfLines ar numStr (visiblePolylineItems selectedLayers items))"

section \<open>Editor state\<close>

datatype error = TypeError | Error string

datatype Status = Idle | Ok | Fail

datatype PointMode = Mode_all | Mode_sampled | Mode_hidden

text \<open>
  A layer style; the nested records \<open>line\<close>, \<open>point\<close>, \<open>text\<close> and \<open>dim\<close> of the
  source are flattened into one, the field names keeping the path.
\<close>

record LayerStyle =
  line_type :: LayerLineType
  line_color :: string
  line_width :: jsnum
  point_size :: jsnum
  text_fontFamily :: string
  text_italicAngle :: jsnum
  text_bold :: bool
  text_fontSize :: jsnum
  text_widthFactor :: jsnum
  text_color :: string
  dim_scale :: jsnum
  dim_textSize :: jsnum
  dim_arrowSize :: jsnum
  dim_lineGap :: jsnum

record Bounds =
  minX :: jsnum
  minY :: jsnum
  maxX :: jsnum
  maxY :: jsnum

record PointRef =
  ref_id :: string
  ptIndex :: int

record Panning =
  pan_pointerId :: int
  pan_start :: Point
  pan_bounds :: Bounds

record DraggingPolyline =
  dp_pointerId :: int
  dp_id :: string
  dp_start :: Point
  dp_basePoints :: Polyline

text \<open>
  The refs and module variables of the component that the modelled operations read or
  write. A JSON text (\<open>jsonDraft\<close>) is kept as what \<open>JSON.parse\<close> makes of it:
  \<open>None\<close> for a text it rejects, the empty text among them. \<open>dragRaf\<close> tells whether
  an animation frame is requested.
\<close>

record AppState =
  polylineItems :: "PolylineItem list"
  bboxBounds :: "Bounds option"
  viewBounds :: Bounds
  dragging :: "PointRef option"
  draggingPolyline :: "DraggingPolyline option"
  panning :: "Panning option"
  selected :: "PointRef option"
  selectedItemId :: "string option"
  selectedEntityIndex :: "nat option"
  entityVisibleOverrides :: "(string \<times> bool) list"
  copyState :: Status
  fileName :: "string option"
  parsedDxf :: "jsval option"
  jsonDraft :: "jsval option"
  jsonState :: Status
  commandLine :: string
  commandState :: Status
  pointMode :: PointMode
  selectedLayers :: "string list"
  layerStyles :: "(string \<times> LayerStyle) list"
  polylineIdSeq :: nat
  latestDrag :: "(PointRef \<times> Point) option"
  dragRaf :: bool

definition visibleItems :: "AppState \<Rightarrow> PolylineItem list" where
  "visibleItems st = visiblePolylineItems (selectedLayers st) (polylineItems st)"

definition counts_points :: "AppState \<Rightarrow> nat" where
  "counts_points st = sum_list (map (\<lambda>it. length (points it)) (visibleItems st))"

definition findItemById :: "AppState \<Rightarrow> string \<Rightarrow> PolylineItem option" where
  "findItemById st i = find (\<lambda>x. item_id x = i) (polylineItems st)"

section \<open>Sampling and the rendered point list\<close>

definition pointSampleStep :: "Arith \<Rightarrow> AppState \<Rightarrow> jsnum" where
  "pointSampleStep ar st =
     (let maxPoints = 3500; total = counts_points st
      in if pointMode st = Mode_hidden then PInf
         else if pointMode st = Mode_all then Fin 1
         else if total > maxPoints then num_ceil (fl_div ar (Fin (real total)) (Fin (real maxPoints))) else Fin 1)"

definition polylineStrokeStep :: "Arith \<Rightarrow> AppState \<Rightarrow> jsnum" where
  "polylineStrokeStep ar st =
     (let total = counts_points st
      in if total \<le> 20000 then Fin 1
         else if pointMode st = Mode_all then Fin 1
         else num_max (Fin 1) (pointSampleStep ar st))"






section \<open>Input normaliser\<close>

fun is_array :: "jsval \<Rightarrow> bool" where
  "is_array (JArr _) = True"
| "is_array _ = False"

fun finite_number :: "jsval \<Rightarrow> jsnum option" where
  "finite_number (JNum n) = (if isFinite n then Some n else None)"
| "finite_number _ = None"

definition coercePair :: "(jsval \<Rightarrow> jsnum) \<Rightarrow> jsval \<Rightarrow> jsval \<Rightarrow> Point option" where
  "coercePair conv x y =
     (let nx = Number conv x; ny = Number conv y
      in if isFinite nx \<and> isFinite ny then Some (nx, ny) else None)"

text \<open>
  \<open>normalizePoint\<close>: a two-element array goes through the finiteness tests and the
  coercion \<open>coercePair\<close>; anything else is read as a record with numeric \<open>x\<close> and \<open>y\<close>.
\<close>

definition normalizePoint :: "(jsval \<Rightarrow> jsnum) \<Rightarrow> jsval \<Rightarrow> Point option" where
  "normalizePoint conv p =
     (case p of
        JArr [x, y] \<Rightarrow>
          (case (finite_number x, finite_number y) of
             (Some a, Some b) \<Rightarrow> Some (a, b)
           | _ \<Rightarrow> coercePair conv x y)
      | _ \<Rightarrow>
          (case (getProp (asRecord p) ''x'', getProp (asRecord p) ''y'') of
             (JNum a, JNum b) \<Rightarrow> Some (a, b)
           | _ \<Rightarrow> None))"

definition trimmed_or :: "string \<Rightarrow> string \<Rightarrow> string" where
  "trimmed_or s d = (let t = trim s in if t \<noteq> [] then t else d)"

definition normalizeLayer :: "jsval \<Rightarrow> string" where
  "normalizeLayer v =
     (case v of
        JStr s \<Rightarrow> trimmed_or s ''0''
      | _ \<Rightarrow>
          (let r = asRecord v;
               name = (case getProp r ''name'' of
                         JStr n \<Rightarrow> Some n
                       | _ \<Rightarrow> (case getProp r ''layer'' of JStr l \<Rightarrow> Some l | _ \<Rightarrow> None))
           in case name of Some n \<Rightarrow> trimmed_or n ''0'' | None \<Rightarrow> ''0''))"

definition normalizeType :: "jsval \<Rightarrow> string" where
  "normalizeType v = (case v of JStr s \<Rightarrow> trimmed_or s ''POLYLINE'' | _ \<Rightarrow> ''POLYLINE'')"

definition normalizeFiniteNumber :: "(jsval \<Rightarrow> jsnum) \<Rightarrow> jsval \<Rightarrow> jsnum \<Rightarrow> jsnum" where
  "normalizeFiniteNumber conv v fallback =
     (case finite_number v of
        Some n \<Rightarrow> n
      | None \<Rightarrow> (let n = Number conv v in if isFinite n then n else fallback))"

definition is_hex_digit :: "char \<Rightarrow> bool" where
  "is_hex_digit c = (c \<in> set ''0123456789abcdefABCDEF'')"

text \<open>The pattern \<open>/^#[0-9a-fA-F]{6}$/\<close>.\<close>

definition is_hex_color :: "string \<Rightarrow> bool" where
  "is_hex_color s = (case s of c # ds \<Rightarrow> c = CHR ''#'' \<and> length ds = 6 \<and> list_all is_hex_digit ds | [] \<Rightarrow> False)"

definition normalizeColorHex :: "jsval \<Rightarrow> string \<Rightarrow> string" where
  "normalizeColorHex v fallback =
     (case v of
        JStr s \<Rightarrow> (let t = trim s in if is_hex_color t then toLowerCase t else fallback)
      | _ \<Rightarrow> fallback)"

definition defaultLayerStyle :: LayerStyle where
  "defaultLayerStyle =
     \<lparr>line_type = Solid, line_color = ''#2c3e50'', line_width = Fin 1,
      point_size = Fin dbl_0_8,
      text_fontFamily = ''sans-serif'', text_italicAngle = Fin 0, text_bold = False,
      text_fontSize = Fin 12, text_widthFactor = Fin 1, text_color = ''#111111'',
      dim_scale = Fin 1, dim_textSize = Fin 12, dim_arrowSize = Fin (5 / 2), dim_lineGap = Fin 2\<rparr>"

definition normalizeLayerLineType :: "jsval \<Rightarrow> LayerLineType" where
  "normalizeLayerLineType v =
     (if v = JStr ''dash'' then Dash
      else if v = JStr ''dot'' then Dot
      else if v = JStr ''dashdot'' then Dashdot
      else Solid)"

definition normalizeLayerStyle :: "(jsval \<Rightarrow> jsnum) \<Rightarrow> jsval \<Rightarrow> LayerStyle" where
  "normalizeLayerStyle conv v =
     (let d = defaultLayerStyle;
          r = asRecord v;
          line = asRecord (getProp r ''line'');
          point = asRecord (getProp r ''point'');
          text = asRecord (getProp r ''text'');
          dim = asRecord (getProp r ''dim'')
      in \<lparr>line_type = normalizeLayerLineType (getProp line ''type''),
          line_color = normalizeColorHex (getProp line ''color'') (line_color d),
          line_width =
            num_max (Fin dbl_0_1) (normalizeFiniteNumber conv (getProp line ''width'') (line_width d)),
          point_size =
            num_max (Fin dbl_0_1) (normalizeFiniteNumber conv (getProp point ''size'') (point_size d)),
          text_fontFamily =
            (case getProp text ''fontFamily'' of
               JStr s \<Rightarrow> if trim s \<noteq> [] then s else text_fontFamily d
             | _ \<Rightarrow> text_fontFamily d),
          text_italicAngle =
            normalizeFiniteNumber conv (getProp text ''italicAngle'') (text_italicAngle d),
          text_bold = truthy (nullish_or (getProp text ''bold'') (JBool (text_bold d))),
          text_fontSize =
            num_max (Fin 1) (normalizeFiniteNumber conv (getProp text ''fontSize'') (text_fontSize d)),
          text_widthFactor =
            num_max (Fin dbl_0_1)
              (normalizeFiniteNumber conv (getProp text ''widthFactor'') (text_widthFactor d)),
          text_color = normalizeColorHex (getProp text ''color'') (text_color d),
          dim_scale =
            num_max (Fin dbl_0_01) (normalizeFiniteNumber conv (getProp dim ''scale'') (dim_scale d)),
          dim_textSize =
            num_max (Fin 1) (normalizeFiniteNumber conv (getProp dim ''textSize'') (dim_textSize d)),
          dim_arrowSize =
            num_max (Fin dbl_0_1)
              (normalizeFiniteNumber conv (getProp dim ''arrowSize'') (dim_arrowSize d)),
          dim_lineGap =
            num_max (Fin 0) (normalizeFiniteNumber conv (getProp dim ''lineGap'') (dim_lineGap d))\<rparr>)"

text \<open>The loop \<open>for (const p of ...) { const pt = normalizePoint(p); if (pt) pts.push(pt) }\<close>.\<close>

fun collectPoints :: "(jsval \<Rightarrow> jsnum) \<Rightarrow> jsval list \<Rightarrow> Polyline" where
  "collectPoints conv [] = []"
| "collectPoints conv (p # ps) =
     (case normalizePoint conv p of
        Some pt \<Rightarrow> pt # collectPoints conv ps
      | None \<Rightarrow> collectPoints conv ps)"

definition normalizePolylinePointsLike :: "(jsval \<Rightarrow> jsnum) \<Rightarrow> jsval \<Rightarrow> Polyline option" where
  "normalizePolylinePointsLike conv pl =
     (case pl of
        JArr xs \<Rightarrow> (let pts = collectPoints conv xs in if length pts \<ge> 2 then Some pts else None)
      | _ \<Rightarrow>
          (case getProp (asRecord pl) ''vertices'' of
             JArr vs \<Rightarrow> (let pts = collectPoints conv vs in if length pts \<ge> 2 then Some pts else None)
           | _ \<Rightarrow> None))"

text \<open>
  \<open>nextPolylineId\<close> increments the counter \<open>polylineIdSeq\<close>; it takes the counter and
  returns the new one beside the identifier.
\<close>

definition nextPolylineId :: "string \<Rightarrow> nat \<Rightarrow> string \<times> nat" where
  "nextPolylineId prefix seq = (prefix @ ''-'' @ digits_in 36 (seq + 1), seq + 1)"

definition normalizeLineOverride :: "(jsval \<Rightarrow> jsnum) \<Rightarrow> jsval \<Rightarrow> PolylineLineOverride option" where
  "normalizeLineOverride conv v =
     (let lo = asRecord v
      in if lo \<noteq> None \<and>
            (truthy (getProp lo ''type'') \<or> truthy (getProp lo ''color'') \<or> truthy (getProp lo ''width''))
         then Some
           \<lparr>ovr_type =
              (if truthy (getProp lo ''type'') then Some (normalizeLayerLineType (getProp lo ''type''))
               else None),
            ovr_color =
              (if truthy (getProp lo ''color'') then Some (normalizeColorHex (getProp lo ''color'') ''#000000'')
               else None),
            ovr_width =
              (if getProp lo ''width'' \<noteq> JUndefined
               then Some (num_max (Fin dbl_0_1) (normalizeFiniteNumber conv (getProp lo ''width'') (Fin 1)))
               else None)\<rparr>
         else None)"

definition normalizeEntityIndex :: "jsval \<Rightarrow> nat option" where
  "normalizeEntityIndex v =
     (case v of
        JNum (Fin a) \<Rightarrow> if real_of_int \<lfloor>a\<rfloor> = a \<and> a \<ge> 0 then Some (nat \<lfloor>a\<rfloor>) else None
      | _ \<Rightarrow> None)"

definition normalizePolylineItemLike ::
  "(jsval \<Rightarrow> jsnum) \<Rightarrow> jsval \<Rightarrow> nat \<Rightarrow> PolylineItem option \<times> nat" where
  "normalizePolylineItemLike conv pl seq =
     (let r = asRecord pl
      in if r \<noteq> None \<and> is_array (getProp r ''points'') then
           (case normalizePolylinePointsLike conv (getProp r ''points'') of
              None \<Rightarrow> (None, seq)
            | Some pts \<Rightarrow>
                let lo = normalizeLineOverride conv (getProp r ''lineOverride'');
                    ei = normalizeEntityIndex (getProp r ''entityIndex'');
                    (ident, seq') =
                      (case getProp r ''id'' of
                         JStr s \<Rightarrow> if trim s \<noteq> [] then (s, seq) else nextPolylineId ''json'' seq
                       | _ \<Rightarrow> nextPolylineId ''json'' seq)
                in (Some \<lparr>item_id = ident,
                          layer = normalizeLayer (getProp r ''layer''),
                          item_type = normalizeType (getProp r ''type''),
                          points = pts,
                          visible = Some (truthy (nullish_or (getProp r ''visible'') (JBool True))),
                          entityIndex = ei,
                          lineOverride = lo,
                          source = None\<rparr>, seq'))
         else
           (case normalizePolylinePointsLike conv pl of
              None \<Rightarrow> (None, seq)
            | Some pts \<Rightarrow>
                let (ident, seq') = nextPolylineId ''pl'' seq
                in (Some \<lparr>item_id = ident,
                          layer = normalizeLayer (getProp r ''layer''),
                          item_type = normalizeType (getProp r ''type''),
                          points = pts,
                          visible = Some (truthy (nullish_or (getProp r ''visible'') (JBool True))),
                          entityIndex = None,
                          lineOverride = None,
                          source = None\<rparr>, seq')))"

fun normalizeEach :: "(jsval \<Rightarrow> jsnum) \<Rightarrow> jsval list \<Rightarrow> nat \<Rightarrow> PolylineItem list \<times> nat" where
  "normalizeEach conv [] seq = ([], seq)"
| "normalizeEach conv (pl # rest) seq =
     (let (item, seq1) = normalizePolylineItemLike conv pl seq;
          (out, seq2) = normalizeEach conv rest seq1
      in (case item of None \<Rightarrow> out | Some it \<Rightarrow> it # out, seq2))"

definition normalizePolylines ::
  "(jsval \<Rightarrow> jsnum) \<Rightarrow> jsval \<Rightarrow> nat \<Rightarrow> PolylineItem list \<times> nat" where
  "normalizePolylines conv input seq =
     (let raw = (case input of
                   JArr xs \<Rightarrow> xs
                 | _ \<Rightarrow> (case getProp (asRecord input) ''polylines'' of JArr xs \<Rightarrow> xs | _ \<Rightarrow> []))
      in normalizeEach conv raw seq)"

section \<open>JSON export\<close>

text \<open>
  What \<open>JSON.parse (JSON.stringify v)\<close> gives back: a property whose value is
  \<open>undefined\<close> is left out, \<open>undefined\<close> in an array and a number that is not finite
  become \<open>null\<close>, every other value is read back as it was written.
\<close>

primrec json_image :: "jsval \<Rightarrow> jsval" where
  "json_image JUndefined = JUndefined"
| "json_image JNull = JNull"
| "json_image (JBool b) = JBool b"
| "json_image (JNum n) = (if isFinite n then JNum n else JNull)"
| "json_image (JStr s) = JStr s"
| "json_image (JArr xs) = JArr (map (\<lambda>v. if v = JUndefined then JNull else v) (map json_image xs))"
| "json_image (JObj kvs) =
     JObj (filter (\<lambda>kv. snd kv \<noteq> JUndefined) (map (map_prod (\<lambda>k. k) json_image) kvs))"

fun lineTypeName :: "LayerLineType \<Rightarrow> string" where
  "lineTypeName Solid = ''solid''"
| "lineTypeName Dash = ''dash''"
| "lineTypeName Dot = ''dot''"
| "lineTypeName Dashdot = ''dashdot''"

definition opt_json :: "('a \<Rightarrow> jsval) \<Rightarrow> 'a option \<Rightarrow> jsval" where
  "opt_json f v = (case v of None \<Rightarrow> JUndefined | Some x \<Rightarrow> f x)"

definition lineOverrideJson :: "PolylineLineOverride \<Rightarrow> jsval" where
  "lineOverrideJson lo =
     JObj [(''type'', opt_json (\<lambda>t. JStr (lineTypeName t)) (ovr_type lo)),
           (''color'', opt_json JStr (ovr_color lo)),
           (''width'', opt_json JNum (ovr_width lo))]"

definition pointJson :: "Point \<Rightarrow> jsval" where
  "pointJson p = JArr [JNum (fst p), JNum (snd p)]"

text \<open>One element of \<open>polylines\<close> in \<open>exportJson\<close>: every field but \<open>source\<close>.\<close>

definition exportItem :: "PolylineItem \<Rightarrow> jsval" where
  "exportItem it =
     JObj [(''id'', JStr (item_id it)),
           (''layer'', JStr (layer it)),
           (''type'', JStr (item_type it)),
           (''points'', JArr (map pointJson (points it))),
           (''visible'', JBool (case visible it of None \<Rightarrow> True | Some b \<Rightarrow> b)),
           (''entityIndex'', opt_json (\<lambda>n. JNum (Fin (real n))) (entityIndex it)),
           (''lineOverride'', opt_json lineOverrideJson (lineOverride it))]"

definition layerStyleJson :: "LayerStyle \<Rightarrow> bool \<Rightarrow> jsval" where
  "layerStyleJson s vis =
     JObj [(''line'', JObj [(''type'', JStr (lineTypeName (line_type s))),
                            (''color'', JStr (line_color s)),
                            (''width'', JNum (line_width s))]),
           (''point'', JObj [(''size'', JNum (point_size s))]),
           (''text'', JObj [(''fontFamily'', JStr (text_fontFamily s)),
                            (''italicAngle'', JNum (text_italicAngle s)),
                            (''bold'', JBool (text_bold s)),
                            (''fontSize'', JNum (text_fontSize s)),
                            (''widthFactor'', JNum (text_widthFactor s)),
                            (''color'', JStr (text_color s))]),
           (''dim'', JObj [(''scale'', JNum (dim_scale s)),
                           (''textSize'', JNum (dim_textSize s)),
                           (''arrowSize'', JNum (dim_arrowSize s)),
                           (''lineGap'', JNum (dim_lineGap s))]),
           (''visible'', JBool vis)]"

text \<open>The value \<open>exportJson\<close> hands to \<open>JSON.stringify\<close>.\<close>

definition exportValue :: "AppState \<Rightarrow> jsval" where
  "exportValue st =
     JObj [(''polylines'', JArr (map exportItem (visibleItems st))),
           (''layers'',
              JObj (map (\<lambda>(l, s). (l, layerStyleJson s (l \<in> set (selectedLayers st))))
                      (layerStyles st)))]"

text \<open>The exported text, as what \<open>JSON.parse\<close> reads from it.\<close>

definition exportJson :: "AppState \<Rightarrow> jsval option" where
  "exportJson st = Some (json_image (exportValue st))"

section \<open>Viewport and coordinate transform\<close>




definition defaultBounds :: Bounds where
  "defaultBounds = \<lparr>minX = Fin 0, minY = Fin 0, maxX = Fin 100, maxY = Fin 100\<rparr>"

text \<open>
  \<open>setViewToContentBounds\<close> computes new bounds and stores them, or returns early and
  stores nothing. The computation is \<open>contentBounds\<close>, in the steps of the source: the
  finiteness test, the ordering of each pair of edges, the padding, the test of the padded
  size, and the widening of one axis to the aspect ratio of the element (\<open>letterbox\<close>).
  \<open>svg\<close> is the client width and height of the element, \<open>None\<close> when there is no
  element.
\<close>

definition ordered :: "jsnum \<Rightarrow> jsnum \<Rightarrow> jsnum \<times> jsnum" where
  "ordered lo hi = (if num_lt hi lo then (hi, lo) else (lo, hi))"

definition padOf :: "Arith \<Rightarrow> jsnum \<Rightarrow> jsnum \<Rightarrow> jsnum \<Rightarrow> jsnum" where
  "padOf ar w h padRatio =
     (let span0 = num_max w h;
          span = (if \<not> isFinite span0 \<or> num_le span0 (Fin 0) then Fin 100 else span0);
          pr = (if isFinite padRatio then num_max (Fin 0) (num_min (Fin (1 / 2)) padRatio)
                else Fin dbl_0_05)
      in fl_mul ar span pr)"

definition letterbox :: "Arith \<Rightarrow> (nat \<times> nat) option \<Rightarrow> Bounds \<Rightarrow> jsnum \<Rightarrow> jsnum \<Rightarrow> Bounds" where
  "letterbox ar svg b w h =
     (let vw = (case svg of None \<Rightarrow> 0 | Some (cw, ch) \<Rightarrow> cw);
          vh = (case svg of None \<Rightarrow> 0 | Some (cw, ch) \<Rightarrow> ch)
      in if vw > 0 \<and> vh > 0 then
           let viewportRatio = fl_div ar (Fin (real vw)) (Fin (real vh));
               contentRatio = fl_div ar w h
           in if isFinite viewportRatio \<and> num_lt (Fin 0) viewportRatio \<and> isFinite contentRatio then
                if num_lt viewportRatio contentRatio then
                  let targetH = fl_div ar w viewportRatio;
                      extra = fl_sub ar targetH h
                  in b\<lparr>minY := fl_sub ar (minY b) (fl_div ar extra (Fin 2)),
                       maxY := fl_add ar (maxY b) (fl_div ar extra (Fin 2))\<rparr>
                else if num_lt contentRatio viewportRatio then
                  let targetW = fl_mul ar h viewportRatio;
                      extra = fl_sub ar targetW w
                  in b\<lparr>minX := fl_sub ar (minX b) (fl_div ar extra (Fin 2)),
                       maxX := fl_add ar (maxX b) (fl_div ar extra (Fin 2))\<rparr>
                else b
              else b
         else b)"

definition contentBounds :: "Arith \<Rightarrow> (nat \<times> nat) option \<Rightarrow> Bounds \<Rightarrow> jsnum \<Rightarrow> Bounds option" where
  "contentBounds ar svg bounds padRatio =
     (if \<not> (isFinite (minX bounds) \<and> isFinite (minY bounds) \<and>
             isFinite (maxX bounds) \<and> isFinite (maxY bounds)) then None
      else
        let (minX1, maxX1) = ordered (minX bounds) (maxX bounds);
            (minY1, maxY1) = ordered (minY bounds) (maxY bounds);
            pad = padOf ar (fl_sub ar maxX1 minX1) (fl_sub ar maxY1 minY1) padRatio;
            padded = \<lparr>minX = fl_sub ar minX1 pad, minY = fl_sub ar minY1 pad,
                      maxX = fl_add ar maxX1 pad, maxY = fl_add ar maxY1 pad\<rparr>;
            w = fl_sub ar (maxX padded) (minX padded);
            h = fl_sub ar (maxY padded) (minY padded)
        in if \<not> isFinite w \<or> \<not> isFinite h \<or> num_le w (Fin 0) \<or> num_le h (Fin 0) then None
           else Some (letterbox ar svg padded w h))"

definition setViewToContentBounds ::
  "Arith \<Rightarrow> (nat \<times> nat) option \<Rightarrow> Bounds \<Rightarrow> jsnum \<Rightarrow> AppState \<Rightarrow> AppState" where
  "setViewToContentBounds ar svg bounds padRatio st =
     (case contentBounds ar svg bounds padRatio of
        None \<Rightarrow> st
      | Some b \<Rightarrow> st\<lparr>viewBounds := b\<rparr>)"

text \<open>
  The bounding-box loop shared by \<open>fitToContent\<close>, \<open>focusPolyline\<close> and the
  \<open>scale\<close> and \<open>rotate\<close> commands: four running extremes, started at the infinities.
\<close>

definition bboxStep :: "Point \<Rightarrow> Bounds \<Rightarrow> Bounds" where
  "bboxStep p b =
     \<lparr>minX = (if num_lt (fst p) (minX b) then fst p else minX b),
      minY = (if num_lt (snd p) (minY b) then snd p else minY b),
      maxX = (if num_lt (maxX b) (fst p) then fst p else maxX b),
      maxY = (if num_lt (maxY b) (snd p) then snd p else maxY b)\<rparr>"

definition pointsBBox :: "Polyline \<Rightarrow> Bounds" where
  "pointsBBox pts = fold bboxStep pts \<lparr>minX = PInf, minY = PInf, maxX = NInf, maxY = NInf\<rparr>"

fun bumpCount :: "string \<Rightarrow> (string \<times> nat) list \<Rightarrow> (string \<times> nat) list" where
  "bumpCount l [] = [(l, 1)]"
| "bumpCount l ((k, n) # m) = (if k = l then (k, n + 1) # m else (k, n) # bumpCount l m)"

text \<open>
  \<open>polylineLayerCounts\<close>: the layers in order of first appearance with their item counts,
  sorted by falling count (the sort is stable) and cut to 200 entries.
\<close>

definition polylineLayerCounts :: "AppState \<Rightarrow> (string \<times> nat) list" where
  "polylineLayerCounts st =
     take 200 (sort_key (\<lambda>e. - int (snd e)) (fold bumpCount (map layer (polylineItems st)) []))"

definition fitToContent :: "Arith \<Rightarrow> (nat \<times> nat) option \<Rightarrow> AppState \<Rightarrow> AppState" where
  "fitToContent ar svg st =
     (let size = length (remdups (selectedLayers st));
          pts = concat (map points (visibleItems st));
          byPoints =
            (if pts = [] then st\<lparr>viewBounds := defaultBounds\<rparr>
             else setViewToContentBounds ar svg (pointsBBox pts) (Fin dbl_0_05) st)
      in case bboxBounds st of
           Some b \<Rightarrow>
             if size > 0 \<and> size = length (polylineLayerCounts st)
             then setViewToContentBounds ar svg b (Fin dbl_0_05) st
             else byPoints
         | None \<Rightarrow> byPoints)"




section \<open>Editing\<close>

fun findIndex :: "('a \<Rightarrow> bool) \<Rightarrow> 'a list \<Rightarrow> nat option" where
  "findIndex P [] = None"
| "findIndex P (x # xs) = (if P x then Some 0 else map_option Suc (findIndex P xs))"

text \<open>\<open>xs.splice(i, 1)\<close> and \<open>xs.splice(i, 0, x)\<close>.\<close>

definition splice_out :: "nat \<Rightarrow> 'a list \<Rightarrow> 'a list" where
  "splice_out i xs = take i xs @ drop (Suc i) xs"


text \<open>
  A write to the points of the item that \<open>findItemById\<close> returns: the first item of the
  list with that identifier.
\<close>

definition setItemPoints :: "string \<Rightarrow> Polyline \<Rightarrow> PolylineItem list \<Rightarrow> PolylineItem list" where
  "setItemPoints i pl items =
     (case findIndex (\<lambda>x. item_id x = i) items of
        None \<Rightarrow> items
      | Some idx \<Rightarrow> items[idx := (items ! idx)\<lparr>points := pl\<rparr>])"



definition onPointerUp :: "AppState \<Rightarrow> AppState" where
  "onPointerUp st =
     st\<lparr>dragging := None, draggingPolyline := None, panning := None,
        latestDrag := None, dragRaf := False\<rparr>"







definition deleteSelectedPoint :: "AppState \<Rightarrow> AppState" where
  "deleteSelectedPoint st =
     (case selected st of
        None \<Rightarrow> st
      | Some s \<Rightarrow>
          (case findIndex (\<lambda>x. item_id x = ref_id s) (polylineItems st) of
             None \<Rightarrow> st
           | Some idx \<Rightarrow>
               let it = polylineItems st ! idx; pl = points it
               in if \<not> (0 \<le> ptIndex s \<and> nat (ptIndex s) < length pl) then st
                  else if length pl \<le> 2 then
                    st\<lparr>polylineItems := splice_out idx (polylineItems st), selected := None\<rparr>
                  else
                    st\<lparr>polylineItems :=
                         (polylineItems st)[idx := it\<lparr>points := splice_out (nat (ptIndex s)) pl\<rparr>],
                       selected := Some \<lparr>ref_id = ref_id s, ptIndex = max 0 (ptIndex s - 1)\<rparr>\<rparr>))"


section \<open>Documents and commands\<close>

definition clearAll :: "AppState \<Rightarrow> AppState" where
  "clearAll st =
     st\<lparr>polylineItems := [], bboxBounds := None, viewBounds := defaultBounds,
        parsedDxf := None, fileName := None, selected := None, selectedItemId := None,
        selectedEntityIndex := None, entityVisibleOverrides := [], selectedLayers := [],
        layerStyles := [], copyState := Idle, jsonDraft := None, jsonState := Idle,
        commandLine := [], commandState := Idle\<rparr>"

text \<open>
  The style registry is the list of its entries in the order they were added; an entry
  that exists keeps its place when it is written again.
\<close>

fun assocSet :: "'k \<Rightarrow> 'v \<Rightarrow> ('k \<times> 'v) list \<Rightarrow> ('k \<times> 'v) list" where
  "assocSet k v [] = [(k, v)]"
| "assocSet k v ((k', v') # m) = (if k' = k then (k, v) # m else (k', v') # assocSet k v m)"

definition ensureLayerStyle :: "string \<Rightarrow> AppState \<Rightarrow> AppState" where
  "ensureLayerStyle l st =
     (let l' = normalizeLayer (JStr l)
      in case map_of (layerStyles st) l' of
           Some existing \<Rightarrow> st
         | None \<Rightarrow> st\<lparr>layerStyles := assocSet l' defaultLayerStyle (layerStyles st)\<rparr>)"

definition initLayerStateFromItems :: "bool \<Rightarrow> AppState \<Rightarrow> AppState" where
  "initLayerStateFromItems forceSelectAllIfEmpty st =
     (let layers = map fst (polylineLayerCounts st);
          st1 = fold ensureLayerStyle layers st
      in if forceSelectAllIfEmpty \<and> layers \<noteq> [] \<and> selectedLayers st1 = []
         then st1\<lparr>selectedLayers := layers\<rparr> else st1)"

text \<open>\<open>Object.entries\<close> of an object or an array.\<close>

fun entries :: "jsval \<Rightarrow> (string \<times> jsval) list" where
  "entries (JObj kvs) = kvs"
| "entries (JArr xs) = zip (map decimal [0..<length xs]) xs"
| "entries _ = []"

text \<open>The loop of \<open>applyJsonDraft\<close> over the layer configuration: styles and visible layers.\<close>

fun layerConfig ::
  "(jsval \<Rightarrow> jsnum) \<Rightarrow> (string \<times> jsval) list \<Rightarrow> (string \<times> LayerStyle) list \<times> string list
     \<Rightarrow> (string \<times> LayerStyle) list \<times> string list" where
  "layerConfig conv [] acc = acc"
| "layerConfig conv ((k, v) # rest) (nextStyles, nextVisible) =
     (let l = normalizeLayer (JStr k);
          vr = asRecord v;
          vis = (if vr \<noteq> None then truthy (nullish_or (getProp vr ''visible'') (JBool True)) else True)
      in layerConfig conv rest
           (assocSet l (normalizeLayerStyle conv v) nextStyles,
            if vis then nextVisible @ [l] else nextVisible))"

definition applyJsonDraft :: "(jsval \<Rightarrow> jsnum) \<Rightarrow> AppState \<Rightarrow> AppState" where
  "applyJsonDraft conv st =
     (case jsonDraft st of
        None \<Rightarrow> st\<lparr>jsonState := Fail\<rparr>
      | Some obj \<Rightarrow>
          let r = asRecord obj;
              (next, seq') = normalizePolylines conv obj (polylineIdSeq st)
          in if next = [] then st\<lparr>polylineIdSeq := seq', jsonState := Fail\<rparr>
             else
               let st1 = st\<lparr>polylineIdSeq := seq', polylineItems := next, bboxBounds := None,
                             selected := None, selectedItemId := None, selectedEntityIndex := None,
                             layerStyles := [], selectedLayers := []\<rparr>;
                   hasLayerConfig = (r \<noteq> None \<and> asRecord (getProp r ''layers'') \<noteq> None);
                   st2 =
                     (if hasLayerConfig then
                        let (nextStyles, nextVisible) =
                              layerConfig conv (entries (getProp r ''layers'')) ([], [])
                        in st1\<lparr>layerStyles := nextStyles, selectedLayers := nextVisible\<rparr>
                      else st1);
                   st3 = initLayerStateFromItems (\<not> hasLayerConfig) st2
               in st3\<lparr>jsonState := Ok\<rparr>)"

definition refreshJsonDraft :: "AppState \<Rightarrow> AppState" where
  "refreshJsonDraft st = st\<lparr>jsonDraft := exportJson st, jsonState := Idle\<rparr>"

text \<open>
  \<open>copyJson\<close>, once its promise has settled; \<open>written\<close> tells whether the clipboard took
  the text.
\<close>

definition copyJson :: "bool \<Rightarrow> AppState \<Rightarrow> AppState" where
  "copyJson written st =
     (if visibleItems st = [] then st
      else st\<lparr>copyState := (if written then Ok else Fail)\<rparr>)"

text \<open>\<open>raw.split(/\s+/).filter(Boolean)\<close>: the maximal runs of characters that are not white space.\<close>

fun splitWs :: "string \<Rightarrow> string \<Rightarrow> string list" where
  "splitWs cur [] = (if cur = [] then [] else [cur])"
| "splitWs cur (c # cs) =
     (if is_space c then (if cur = [] then splitWs [] cs else cur # splitWs [] cs)
      else splitWs (cur @ [c]) cs)"

text \<open>\<open>parts[i]\<close>: \<open>undefined\<close> past the end.\<close>

definition part :: "string list \<Rightarrow> nat \<Rightarrow> jsval" where
  "part parts i = (if i < length parts then JStr (parts ! i) else JUndefined)"

text \<open>\<open>selectedItemId.value ?? selected.value?.id ?? null\<close>.\<close>

definition targetId :: "AppState \<Rightarrow> string option" where
  "targetId st =
     (case selectedItemId st of
        Some i \<Rightarrow> Some i
      | None \<Rightarrow> (case selected st of Some s \<Rightarrow> Some (ref_id s) | None \<Rightarrow> None))"

text \<open>
  The three commands that edit the selected item. Each returns the error it throws, if
  any, beside the state as it is when the command throws or returns; the \<open>catch\<close> of
  \<open>runCommand\<close> sets the status \<open>Fail\<close> on the state an error leaves.
\<close>

definition cmdMove :: "Arith \<Rightarrow> (jsval \<Rightarrow> jsnum) \<Rightarrow> string list \<Rightarrow> AppState \<Rightarrow> error option \<times> AppState" where
  "cmdMove ar conv parts st =
     (case targetId st of
        None \<Rightarrow> (Some (Error ''no selection''), st)
      | Some i \<Rightarrow>
          if i = [] then (Some (Error ''no selection''), st)
          else
            let dx = Number conv (part parts 1);
                dy = Number conv (part parts 2)
            in if \<not> isFinite dx \<or> \<not> isFinite dy then (Some (Error ''invalid args''), st)
               else
                 (case findItemById st i of
                    None \<Rightarrow> (Some (Error ''not found''), st)
                  | Some it \<Rightarrow>
                      (None, st\<lparr>polylineItems :=
                                setItemPoints i
                                  (map (\<lambda>p. (fl_add ar (fst p) dx, fl_add ar (snd p) dy)) (points it))
                                  (polylineItems st),
                              commandState := Ok\<rparr>)))"

definition cmdScale :: "Arith \<Rightarrow> (jsval \<Rightarrow> jsnum) \<Rightarrow> string list \<Rightarrow> AppState \<Rightarrow> error option \<times> AppState" where
  "cmdScale ar conv parts st =
     (case targetId st of
        None \<Rightarrow> (Some (Error ''no selection''), st)
      | Some i \<Rightarrow>
          if i = [] then (Some (Error ''no selection''), st)
          else
            let sx = Number conv (part parts 1);
                sy = (if length parts \<ge> 3 then Number conv (part parts 2) else sx)
            in if \<not> isFinite sx \<or> \<not> isFinite sy \<or> num_eq sx (Fin 0) \<or> num_eq sy (Fin 0)
               then (Some (Error ''invalid args''), st)
               else
                 (case findItemById st i of
                    None \<Rightarrow> (Some (Error ''not found''), st)
                  | Some it \<Rightarrow>
                      let bb = pointsBBox (points it);
                          cx = fl_div ar (fl_add ar (minX bb) (maxX bb)) (Fin 2);
                          cy = fl_div ar (fl_add ar (minY bb) (maxY bb)) (Fin 2)
                      in (None, st\<lparr>polylineItems :=
                                   setItemPoints i
                                     (map (\<lambda>p. (fl_add ar cx (fl_mul ar (fl_sub ar (fst p) cx) sx),
                                                 fl_add ar cy (fl_mul ar (fl_sub ar (snd p) cy) sy)))
                                        (points it))
                                     (polylineItems st),
                                 commandState := Ok\<rparr>)))"

definition cmdRotate :: "Arith \<Rightarrow> (jsval \<Rightarrow> jsnum) \<Rightarrow> string list \<Rightarrow> AppState \<Rightarrow> error option \<times> AppState" where
  "cmdRotate ar conv parts st =
     (case targetId st of
        None \<Rightarrow> (Some (Error ''no selection''), st)
      | Some i \<Rightarrow>
          if i = [] then (Some (Error ''no selection''), st)
          else
            let deg = Number conv (part parts 1)
            in if \<not> isFinite deg then (Some (Error ''invalid args''), st)
               else
                 (case findItemById st i of
                    None \<Rightarrow> (Some (Error ''not found''), st)
                  | Some it \<Rightarrow>
                      let bb = pointsBBox (points it);
                          cx = fl_div ar (fl_add ar (minX bb) (maxX bb)) (Fin 2);
                          cy = fl_div ar (fl_add ar (minY bb) (maxY bb)) (Fin 2);
                          rad = fl_div ar (fl_mul ar deg (Fin dbl_PI)) (Fin 180);
                          c = fl_cos ar rad;
                          s = fl_sin ar rad
                      in (None, st\<lparr>polylineItems :=
                                   setItemPoints i
                                     (map (\<lambda>p. let dx = fl_sub ar (fst p) cx;
                                                    dy = fl_sub ar (snd p) cy
                                                in (fl_sub ar (fl_add ar cx (fl_mul ar dx c)) (fl_mul ar dy s),
                                                    fl_add ar (fl_add ar cy (fl_mul ar dy c)) (fl_mul ar dx s)))
                                        (points it))
                                     (polylineItems st),
                                 commandState := Ok\<rparr>)))"

text \<open>
  What \<open>runCommand\<close> reads beside the state: the platform's arithmetic and its \<open>Number\<close> on strings, the
  client size of the drawing element, and whether the clipboard takes a text.
\<close>

record Env =
  arith :: Arith
  toNumber :: "jsval \<Rightarrow> jsnum"
  svgClient :: "(nat \<times> nat) option"
  clipboardWrites :: bool

text \<open>The words of the command line, and the verb: the first word in lower case.\<close>

definition commandParts :: "AppState \<Rightarrow> string list" where
  "commandParts st = splitWs [] (trim (commandLine st))"

definition commandVerb :: "AppState \<Rightarrow> string" where
  "commandVerb st = toLowerCase (case commandParts st of [] \<Rightarrow> [] | c # _ \<Rightarrow> c)"

definition caught :: "error option \<times> AppState \<Rightarrow> AppState" where
  "caught r = (case fst r of Some e \<Rightarrow> (snd r)\<lparr>commandState := Fail\<rparr> | None \<Rightarrow> snd r)"

definition runCommand :: "Env \<Rightarrow> AppState \<Rightarrow> AppState" where
  "runCommand env st0 =
     (let parts = commandParts st0;
          cmd = commandVerb st0;
          st = st0\<lparr>commandState := Idle\<rparr>
      in if cmd = ''clear'' then (clearAll st)\<lparr>commandState := Ok\<rparr>
         else if cmd = ''delete'' then (deleteSelectedPoint st)\<lparr>commandState := Ok\<rparr>
         else if cmd = ''copy'' then
           (let st1 = copyJson (clipboardWrites env) st
            in st1\<lparr>commandState := (if copyState st1 = Fail then Fail else Ok)\<rparr>)
         else if cmd = ''export'' then st\<lparr>commandState := Ok\<rparr>
         else if cmd = ''refresh-json'' then (refreshJsonDraft st)\<lparr>commandState := Ok\<rparr>
         else if cmd = ''apply-json'' then
           (let st1 = applyJsonDraft (toNumber env) st
            in st1\<lparr>commandState := (if jsonState st1 = Fail then Fail else Ok)\<rparr>)
         else if cmd = ''fit'' then (fitToContent (arith env) (svgClient env) st)\<lparr>commandState := Ok\<rparr>
         else if cmd = ''move'' then caught (cmdMove (arith env) (toNumber env) parts st)
         else if cmd = ''scale'' then caught (cmdScale (arith env) (toNumber env) parts st)
         else if cmd = ''rotate'' then caught (cmdRotate (arith env) (toNumber env) parts st)
         else if cmd = [] then st
         else st\<lparr>commandState := Fail\<rparr>)"

section \<open>The invariant of the viewport\<close>




section \<open>Example data\<close>

definition item0 :: PolylineItem where
  "item0 = \<lparr>item_id = ''a'', layer = ''0'', item_type = ''POLYLINE'', points = [],
     visible = Some True, entityIndex = None, lineOverride = None, source = None\<rparr>"

definition state0 :: AppState where
  "state0 =
     \<lparr>polylineItems = [], bboxBounds = None, viewBounds = defaultBounds, dragging = None,
      draggingPolyline = None, panning = None, selected = None, selectedItemId = None,
      selectedEntityIndex = None, entityVisibleOverrides = [], copyState = Idle,
      fileName = None, parsedDxf = None, jsonDraft = None, jsonState = Idle,
      commandLine = [], commandState = Idle, pointMode = Mode_sampled, selectedLayers = [],
      layerStyles = [], polylineIdSeq = 0, latestDrag = None, dragRaf = False\<rparr>"

text \<open>A fragment of \<open>Number\<close> on strings, for the examples: unsigned decimal integers.\<close>

definition digit_value :: "char \<Rightarrow> nat option" where
  "digit_value c = map_of (zip ''0123456789'' [0, 1, 2, 3, 4, 5, 6, 7, 8, 9]) c"

fun digits_value :: "nat \<Rightarrow> string \<Rightarrow> nat option" where
  "digits_value acc [] = Some acc"
| "digits_value acc (c # cs) =
     (case digit_value c of None \<Rightarrow> None | Some d \<Rightarrow> digits_value (10 * acc + d) cs)"

definition decimalNumber :: "jsval \<Rightarrow> jsnum" where
  "decimalNumber v =
     (case v of
        JStr (c # cs) \<Rightarrow> (case digits_value 0 (c # cs) of Some n \<Rightarrow> Fin (real n) | None \<Rightarrow> NaN)
      | _ \<Rightarrow> NaN)"

definition env0 :: Env where
  "env0 = \<lparr>arith = exact, toNumber = decimalNumber, svgClient = None, clipboardWrites = True\<rparr>"

definition segment10 :: PolylineItem where
  "segment10 = item0\<lparr>points := [(Fin 0, Fin 0), (Fin 10, Fin 0)]\<rparr>"



text \<open>A document of one two-point item, selected, with a command typed in.\<close>

definition segmentState :: "string \<Rightarrow> AppState" where
  "segmentState cmd =
     state0\<lparr>polylineItems := [segment10], selectedItemId := Some ''a'',
            selected := Some \<lparr>ref_id = ''a'', ptIndex = 0\<rparr>, selectedLayers := [''0''],
            commandLine := cmd\<rparr>"

definition ring4 :: Polyline where
  "ring4 = [(Fin 0, Fin 0), (Fin 10, Fin 0), (Fin 10, Fin 10), (Fin 0, Fin 0)]"

definition ring_twice :: Polyline where
  "ring_twice = [(Fin 0, Fin 0), (Fin 1, Fin 1), (Fin 0, Fin 0), (Fin 0, Fin 0)]"

text \<open>
  A JSON document whose first point is a record with an infinite coordinate, as
  \<open>JSON.parse\<close> reads \<open>{"x":1e999,"y":0}\<close>.
\<close>

definition infinitePointDoc :: jsval where
  "infinitePointDoc =
     JObj [(''polylines'',
            JArr [JObj [(''points'',
                         JArr [JObj [(''x'', JNum PInf), (''y'', JNum (Fin 0))],
                               JArr [JNum (Fin 0), JNum (Fin 0)],
                               JArr [JNum (Fin 1), JNum (Fin 1)]])]])]"

definition infinitePointItem :: PolylineItem where
  "infinitePointItem =
     \<lparr>item_id = ''json-1'', layer = ''0'', item_type = ''POLYLINE'',
      points = [(PInf, Fin 0), (Fin 0, Fin 0), (Fin 1, Fin 1)],
      visible = Some True, entityIndex = None, lineOverride = None, source = None\<rparr>"

text \<open>The state after that document has been applied to the empty editor.\<close>

definition appliedInfinite :: "(jsval \<Rightarrow> jsnum) \<Rightarrow> AppState" where
  "appliedInfinite conv = applyJsonDraft conv (state0\<lparr>jsonDraft := Some infinitePointDoc\<rparr>)"




definition zoomedState :: AppState where
  "zoomedState = state0\<lparr>viewBounds := \<lparr>minX = Fin 0, minY = Fin 0, maxX = Fin 50, maxY = Fin 50\<rparr>\<rparr>"

chapter \<open>Properties\<close>

section \<open>Strings and digits\<close>

lemma decimal_digit: "n < 10 \<Longrightarrow> decimal n = [digit_char n]"
  by (simp add: decimal_def digits_in.simps [of 10 n])

section \<open>DXF export: the closing point of a ring\<close>

text \<open>
  \<open>polylineClosedFlag\<close> calls a polyline closed exactly when it has at least 3 points
  and both coordinate differences of its first and last point, as the platform rounds
  them, are below the double 1e-6 in absolute value; it then drops the last point.
\<close>

lemma closed_iff_near:
  "fst (polylineClosedFlag ar pl) \<longleftrightarrow>
     3 \<le> length pl
     \<and> num_lt (num_abs (fl_sub ar (fst (pl ! 0)) (fst (last pl))))
          (Fin (4722366482869645 / 4722366482869645213696))
     \<and> num_lt (num_abs (fl_sub ar (snd (pl ! 0)) (snd (last pl))))
          (Fin (4722366482869645 / 4722366482869645213696))"
proof (cases "length pl < 3")
  case True
  then show ?thesis by (simp add: polylineClosedFlag_def)
next
  case False
  then have "pl \<noteq> []" by auto
  then have "pl ! (length pl - 1) = last pl" by (simp add: last_conv_nth)
  with False show ?thesis by (simp add: polylineClosedFlag_def Let_def dbl_1e_6_def)
qed

lemma closed_flag_vertices:
  "snd (polylineClosedFlag ar pl) = (if fst (polylineClosedFlag ar pl) then butlast pl else pl)"
  by (simp add: polylineClosedFlag_def Let_def)

lemma dxfEntity_lines:
  "polylineClosedFlag ar (points it) = (cl, vertices) \<Longrightarrow> 2 \<le> length vertices \<Longrightarrow>
   dxfEntity ar numStr it =
     [''0'', ''LWPOLYLINE'', ''100'', ''AcDbEntity'', ''8'', (if layer it = [] then ''0'' else layer it),
      ''100'', ''AcDbPolyline'', ''90'', decimal (length vertices), ''70'', (if cl then ''1'' else ''0'')] @
     concat (map (\<lambda>(x, y). [''10'', numStr x, ''20'', numStr y]) vertices)"
  by (simp add: dxfEntity_def pushPair_def)

lemma toDxfString_single:
  assumes "layer it \<in> set sel" and "visible it \<noteq> Some False"
  shows "toDxfString ar numStr sel [it] =
     join [CHR 0x0A]
       ([''0'', ''SECTION'', ''2'', ''HEADER'', ''9'', ''$ACADVER'', ''1'', ''AC1027'', ''0'', ''ENDSEC'',
         ''0'', ''SECTION'', ''2'', ''ENTITIES''] @
        dxfEntity ar numStr it @ [''0'', ''ENDSEC'', ''0'', ''EOF''])"
proof -
  have "visiblePolylineItems sel [it] = [it]"
    using assms by (cases "visible it") (auto simp: visiblePolylineItems_def)
  then show ?thesis by (simp add: toDxfString_def toDxfLines_def pushPair_def)
qed

text \<open>
  Claim C8 as stated: for every polyline of at least 3 points whose last point repeats the
  first within the tolerance, the record written for it carries the same vertex count (the
  value of group 90, line 9 of the record) as the record written for the polyline without
  its last point. It fails when the point before the last repeats the first as well:
  \<open>polylineClosedFlag\<close> removes one closing point each time it is applied, so the ring
  \<open>(0,0) (1,1) (0,0) (0,0)\<close> is written with 3 vertices and, once its last point is
  removed, with 2. Every difference taken on this ring is 0, so rounding plays no part.
\<close>

theorem closed_ring_counterexample:
  "\<not> (\<forall>ar numStr it pl.
         3 \<le> length pl
         \<and> num_lt (num_abs (fl_sub ar (fst (pl ! 0)) (fst (last pl))))
              (Fin (4722366482869645 / 4722366482869645213696))
         \<and> num_lt (num_abs (fl_sub ar (snd (pl ! 0)) (snd (last pl))))
              (Fin (4722366482869645 / 4722366482869645213696)) \<longrightarrow>
         dxfEntity ar numStr (it\<lparr>points := pl\<rparr>) ! 9 =
         dxfEntity ar numStr (it\<lparr>points := butlast pl\<rparr>) ! 9)"
proof
  assume a: "\<forall>ar numStr it pl.
         3 \<le> length pl
         \<and> num_lt (num_abs (fl_sub ar (fst (pl ! 0)) (fst (last pl))))
              (Fin (4722366482869645 / 4722366482869645213696))
         \<and> num_lt (num_abs (fl_sub ar (snd (pl ! 0)) (snd (last pl))))
              (Fin (4722366482869645 / 4722366482869645213696)) \<longrightarrow>
         dxfEntity ar numStr (it\<lparr>points := pl\<rparr>) ! 9 =
         dxfEntity ar numStr (it\<lparr>points := butlast pl\<rparr>) ! 9"
  have h: "3 \<le> length ring_twice
         \<and> num_lt (num_abs (fl_sub exact (fst (ring_twice ! 0)) (fst (last ring_twice))))
              (Fin (4722366482869645 / 4722366482869645213696))
         \<and> num_lt (num_abs (fl_sub exact (snd (ring_twice ! 0)) (snd (last ring_twice))))
              (Fin (4722366482869645 / 4722366482869645213696))"
    by (simp add: ring_twice_def fl_sub_def exact_def)
  have l: "dxfEntity exact (\<lambda>n. ''n'') (item0\<lparr>points := ring_twice\<rparr>) ! 9 = ''3''"
    by (simp add: ring_twice_def dxfEntity_def polylineClosedFlag_def Let_def pushPair_def
        decimal_digit digit_char_def fl_sub_def exact_def dbl_1e_6_def)
  have r: "dxfEntity exact (\<lambda>n. ''n'') (item0\<lparr>points := butlast ring_twice\<rparr>) ! 9 = ''2''"
    by (simp add: ring_twice_def dxfEntity_def polylineClosedFlag_def Let_def pushPair_def
        decimal_digit digit_char_def fl_sub_def exact_def dbl_1e_6_def)
  from a h have "dxfEntity exact (\<lambda>n. ''n'') (item0\<lparr>points := ring_twice\<rparr>) ! 9
               = dxfEntity exact (\<lambda>n. ''n'') (item0\<lparr>points := butlast ring_twice\<rparr>) ! 9"
    by blast
  with l r show False by simp
qed

text \<open>
  Claim C8, amended: take a polyline of at least 3 points whose last point repeats the
  first within the tolerance (both rounded coordinate differences are below the double
  1e-6 in absolute value) and whose remaining points do not themselves form a closed ring
  (only 2 remain, or the point before the last does not repeat the first within the
  tolerance). Then the record written for the polyline and the record written for the
  polyline without its last point carry the same vertex count, one less than the number of
  points, and the same vertex lines; the two records are equal line by line except for the
  closed flag (group 70), which is 1 for the first and 0 for the second. The text that
  \<open>toDxfString\<close> returns for a document with that one visible item is the header, the
  record and the trailer joined by line feeds.
\<close>

theorem closed_ring_vertex_count:
  assumes "3 \<le> length pl"
    and "num_lt (num_abs (fl_sub ar (fst (pl ! 0)) (fst (last pl))))
           (Fin (4722366482869645 / 4722366482869645213696))"
    and "num_lt (num_abs (fl_sub ar (snd (pl ! 0)) (snd (last pl))))
           (Fin (4722366482869645 / 4722366482869645213696))"
    and "length pl = 3
         \<or> \<not> (num_lt (num_abs (fl_sub ar (fst (pl ! 0)) (fst (pl ! (length pl - 2)))))
                  (Fin (4722366482869645 / 4722366482869645213696))
              \<and> num_lt (num_abs (fl_sub ar (snd (pl ! 0)) (snd (pl ! (length pl - 2)))))
                  (Fin (4722366482869645 / 4722366482869645213696)))"
    and "layer it \<in> set sel" and "visible it \<noteq> Some False"
  shows "dxfEntity ar numStr (it\<lparr>points := pl\<rparr>) =
           [''0'', ''LWPOLYLINE'', ''100'', ''AcDbEntity'', ''8'',
            (if layer it = [] then ''0'' else layer it), ''100'', ''AcDbPolyline'',
            ''90'', decimal (length pl - 1), ''70'', ''1''] @
           concat (map (\<lambda>(x, y). [''10'', numStr x, ''20'', numStr y]) (butlast pl))
       \<and> dxfEntity ar numStr (it\<lparr>points := butlast pl\<rparr>) =
           [''0'', ''LWPOLYLINE'', ''100'', ''AcDbEntity'', ''8'',
            (if layer it = [] then ''0'' else layer it), ''100'', ''AcDbPolyline'',
            ''90'', decimal (length pl - 1), ''70'', ''0''] @
           concat (map (\<lambda>(x, y). [''10'', numStr x, ''20'', numStr y]) (butlast pl))
       \<and> toDxfString ar numStr sel [it\<lparr>points := pl\<rparr>] =
           join [CHR 0x0A]
             ([''0'', ''SECTION'', ''2'', ''HEADER'', ''9'', ''$ACADVER'', ''1'', ''AC1027'',
               ''0'', ''ENDSEC'', ''0'', ''SECTION'', ''2'', ''ENTITIES''] @
              dxfEntity ar numStr (it\<lparr>points := pl\<rparr>) @ [''0'', ''ENDSEC'', ''0'', ''EOF''])
       \<and> toDxfString ar numStr sel [it\<lparr>points := butlast pl\<rparr>] =
           join [CHR 0x0A]
             ([''0'', ''SECTION'', ''2'', ''HEADER'', ''9'', ''$ACADVER'', ''1'', ''AC1027'',
               ''0'', ''ENDSEC'', ''0'', ''SECTION'', ''2'', ''ENTITIES''] @
              dxfEntity ar numStr (it\<lparr>points := butlast pl\<rparr>) @ [''0'', ''ENDSEC'', ''0'', ''EOF''])"
proof -
  have c1: "fst (polylineClosedFlag ar pl)"
    using assms(1,2,3) by (simp add: closed_iff_near)
  have ne: "butlast pl \<noteq> []" using assms(1) by (cases pl) auto
  have l: "last (butlast pl) = pl ! (length pl - 2)"
    using assms(1) ne by (simp add: last_conv_nth nth_butlast numeral_2_eq_2)
  have z: "butlast pl ! 0 = pl ! 0" using assms(1) by (simp add: nth_butlast)
  have c2: "\<not> fst (polylineClosedFlag ar (butlast pl))"
    using assms(4) by (auto simp: closed_iff_near l z)
  have v1: "polylineClosedFlag ar pl = (True, butlast pl)"
    using c1 closed_flag_vertices [of ar pl] by (cases "polylineClosedFlag ar pl") simp
  have v2: "polylineClosedFlag ar (butlast pl) = (False, butlast pl)"
    using c2 closed_flag_vertices [of ar "butlast pl"]
    by (cases "polylineClosedFlag ar (butlast pl)") simp
  have len: "2 \<le> length (butlast pl)" using assms(1) by simp
  have e1: "polylineClosedFlag ar (points (it\<lparr>points := pl\<rparr>)) = (True, butlast pl)"
    using v1 by simp
  have e2: "polylineClosedFlag ar (points (it\<lparr>points := butlast pl\<rparr>)) = (False, butlast pl)"
    using v2 by simp
  have s1: "layer (it\<lparr>points := pl\<rparr>) \<in> set sel" "visible (it\<lparr>points := pl\<rparr>) \<noteq> Some False"
    using assms(5,6) by simp_all
  have s2: "layer (it\<lparr>points := butlast pl\<rparr>) \<in> set sel"
    "visible (it\<lparr>points := butlast pl\<rparr>) \<noteq> Some False"
    using assms(5,6) by simp_all
  show ?thesis
    using dxfEntity_lines [OF e1 len, of numStr] dxfEntity_lines [OF e2 len, of numStr]
      toDxfString_single [OF s1, of ar numStr] toDxfString_single [OF s2, of ar numStr]
    by simp
qed

theorem closed_ring_vertex_count_witness:
  "dxfEntity exact (\<lambda>n. ''n'') (item0\<lparr>points := ring4\<rparr>) =
     [''0'', ''LWPOLYLINE'', ''100'', ''AcDbEntity'', ''8'', ''0'', ''100'', ''AcDbPolyline'',
      ''90'', ''3'', ''70'', ''1'',
      ''10'', ''n'', ''20'', ''n'', ''10'', ''n'', ''20'', ''n'', ''10'', ''n'', ''20'', ''n'']
   \<and> dxfEntity exact (\<lambda>n. ''n'') (item0\<lparr>points := butlast ring4\<rparr>) =
     [''0'', ''LWPOLYLINE'', ''100'', ''AcDbEntity'', ''8'', ''0'', ''100'', ''AcDbPolyline'',
      ''90'', ''3'', ''70'', ''0'',
      ''10'', ''n'', ''20'', ''n'', ''10'', ''n'', ''20'', ''n'', ''10'', ''n'', ''20'', ''n'']"
proof -
  have h1: "3 \<le> length ring4" by (simp add: ring4_def)
  have h2: "num_lt (num_abs (fl_sub exact (fst (ring4 ! 0)) (fst (last ring4))))
              (Fin (4722366482869645 / 4722366482869645213696))"
    by (simp add: ring4_def fl_sub_def exact_def)
  have h3: "num_lt (num_abs (fl_sub exact (snd (ring4 ! 0)) (snd (last ring4))))
              (Fin (4722366482869645 / 4722366482869645213696))"
    by (simp add: ring4_def fl_sub_def exact_def)
  have h4: "length ring4 = 3
         \<or> \<not> (num_lt (num_abs (fl_sub exact (fst (ring4 ! 0)) (fst (ring4 ! (length ring4 - 2)))))
                  (Fin (4722366482869645 / 4722366482869645213696))
              \<and> num_lt (num_abs (fl_sub exact (snd (ring4 ! 0)) (snd (ring4 ! (length ring4 - 2)))))
                  (Fin (4722366482869645 / 4722366482869645213696)))"
    by (simp add: ring4_def fl_sub_def exact_def)
  have h5: "layer item0 \<in> set [''0'']" by (simp add: item0_def)
  have h6: "visible item0 \<noteq> Some False" by (simp add: item0_def)
  have d: "decimal (length ring4 - Suc 0) = ''3''"
    by (simp add: ring4_def decimal_digit digit_char_def)
  have b: "butlast ring4 = [(Fin 0, Fin 0), (Fin 10, Fin 0), (Fin 10, Fin 10)]"
    by (simp add: ring4_def)
  have y: "layer item0 = ''0''" by (simp add: item0_def)
  note t = closed_ring_vertex_count [OF h1 h2 h3 h4 h5 h6, of "\<lambda>n. ''n''"]
  from t [THEN conjunct1] t [THEN conjunct2, THEN conjunct1]
  show ?thesis by (simp add: d b y)
qed

section \<open>Rendering: the sampled point list\<close>




text \<open>
  The steps the component passes to \<open>toSvgPoints\<close> are whole numbers or not finite:
  the literal 1 of the print export, and \<open>polylineStrokeStep\<close>.
\<close>

lemma pointSampleStep_whole:
  "isInteger (pointSampleStep ar st) \<or> \<not> isFinite (pointSampleStep ar st)"
proof -
  have "\<And>n. isInteger (num_ceil n) \<or> \<not> isFinite (num_ceil n)"
  proof -
    fix n show "isInteger (num_ceil n) \<or> \<not> isFinite (num_ceil n)" by (cases n) simp_all
  qed
  then show ?thesis by (simp add: pointSampleStep_def Let_def)
qed

lemma polylineStrokeStep_whole:
  "isInteger (polylineStrokeStep ar st) \<or> \<not> isFinite (polylineStrokeStep ar st)"
  using pointSampleStep_whole [of ar st]
  by (cases "pointSampleStep ar st") (auto simp: polylineStrokeStep_def Let_def)





section \<open>Lists and items\<close>



lemma findIndex_Some: "findIndex P xs = Some i \<Longrightarrow> i < length xs \<and> P (xs ! i) \<and> (\<forall>j<i. \<not> P (xs ! j))"
proof (induction xs arbitrary: i)
  case Nil
  then show ?case by simp
next
  case (Cons x xs)
  show ?case
  proof (cases "P x")
    case True
    with Cons.prems show ?thesis by simp
  next
    case False
    with Cons.prems obtain k where k: "findIndex P xs = Some k" "i = Suc k" by auto
    from Cons.IH [OF k(1)] False k(2) show ?thesis
      by (auto simp: nth_Cons split: nat.splits)
  qed
qed














lemma polylineItems_setView [simp]:
  "polylineItems (setViewToContentBounds ar svg b pr st) = polylineItems st"
  by (simp add: setViewToContentBounds_def split: option.splits)

lemma polylineItems_fit [simp]: "polylineItems (fitToContent ar svg st) = polylineItems st"
  by (simp add: fitToContent_def Let_def split: option.splits)

lemma polylineItems_ensure [simp]: "polylineItems (ensureLayerStyle l st) = polylineItems st"
  by (simp add: ensureLayerStyle_def Let_def split: option.splits)

lemma polylineItems_fold_ensure [simp]:
  "polylineItems (fold ensureLayerStyle ls st) = polylineItems st"
  by (induction ls arbitrary: st) simp_all

lemma polylineItems_init [simp]:
  "polylineItems (initLayerStateFromItems f st) = polylineItems st"
  by (simp add: initLayerStateFromItems_def Let_def)




section \<open>Command failures\<close>

lemma targetId_commandState: "targetId (st\<lparr>commandState := x\<rparr>) = targetId st"
  by (simp add: targetId_def cong: option.case_cong)

lemma findItemById_commandState: "findItemById (st\<lparr>commandState := x\<rparr>) i = findItemById st i"
  by (simp add: findItemById_def)

lemma commandState_twice: "st\<lparr>commandState := Idle, commandState := Fail\<rparr> = st\<lparr>commandState := Fail\<rparr>"
  by simp

lemma runCommand_unknown:
  assumes "commandVerb st \<notin> {''clear'', ''delete'', ''copy'', ''export'', ''refresh-json'',
             ''apply-json'', ''fit'', ''move'', ''scale'', ''rotate'', []}"
  shows "runCommand env st = st\<lparr>commandState := Fail\<rparr>"
  using assms by (simp add: runCommand_def Let_def)

lemma cmdMove_throws:
  assumes "targetId st = None \<or> targetId st = Some []
         \<or> \<not> isFinite (Number conv (part parts 1)) \<or> \<not> isFinite (Number conv (part parts 2))
         \<or> (\<exists>i. targetId st = Some i \<and> findItemById st i = None)"
  shows "\<exists>e. cmdMove ar conv parts st = (Some e, st)"
  using assms by (auto simp: cmdMove_def Let_def split: option.splits)

lemma cmdScale_throws:
  assumes "targetId st = None \<or> targetId st = Some []
         \<or> \<not> isFinite (Number conv (part parts 1))
         \<or> (3 \<le> length parts \<and> \<not> isFinite (Number conv (part parts 2)))
         \<or> Number conv (part parts 1) = Fin 0
         \<or> (3 \<le> length parts \<and> Number conv (part parts 2) = Fin 0)
         \<or> (\<exists>i. targetId st = Some i \<and> findItemById st i = None)"
  shows "\<exists>e. cmdScale ar conv parts st = (Some e, st)"
  using assms by (auto simp: cmdScale_def Let_def split: option.splits)

lemma cmdRotate_throws:
  assumes "targetId st = None \<or> targetId st = Some []
         \<or> \<not> isFinite (Number conv (part parts 1))
         \<or> (\<exists>i. targetId st = Some i \<and> findItemById st i = None)"
  shows "\<exists>e. cmdRotate ar conv parts st = (Some e, st)"
  using assms by (auto simp: cmdRotate_def Let_def split: option.splits)

lemma caught_throw: "caught (Some e, st) = st\<lparr>commandState := Fail\<rparr>"
  by (simp add: caught_def)

lemma runCommand_move_fails:
  assumes "commandVerb st = ''move''"
    and "targetId st = None \<or> targetId st = Some []
         \<or> \<not> isFinite (Number (toNumber env) (part (commandParts st) 1))
         \<or> \<not> isFinite (Number (toNumber env) (part (commandParts st) 2))
         \<or> (\<exists>i. targetId st = Some i \<and> findItemById st i = None)"
  shows "runCommand env st = st\<lparr>commandState := Fail\<rparr>"
proof -
  let ?st = "st\<lparr>commandState := Idle\<rparr>"
  have "targetId ?st = None \<or> targetId ?st = Some []
         \<or> \<not> isFinite (Number (toNumber env) (part (commandParts st) 1))
         \<or> \<not> isFinite (Number (toNumber env) (part (commandParts st) 2))
         \<or> (\<exists>i. targetId ?st = Some i \<and> findItemById ?st i = None)"
    using assms(2) by (simp add: targetId_commandState findItemById_commandState)
  from cmdMove_throws [OF this] obtain e where
    "cmdMove (arith env) (toNumber env) (commandParts st) ?st = (Some e, ?st)" by blast
  then show ?thesis using assms(1) by (simp add: runCommand_def Let_def caught_throw)
qed

lemma runCommand_scale_fails:
  assumes "commandVerb st = ''scale''"
    and "targetId st = None \<or> targetId st = Some []
         \<or> \<not> isFinite (Number (toNumber env) (part (commandParts st) 1))
         \<or> (3 \<le> length (commandParts st) \<and> \<not> isFinite (Number (toNumber env) (part (commandParts st) 2)))
         \<or> Number (toNumber env) (part (commandParts st) 1) = Fin 0
         \<or> (3 \<le> length (commandParts st) \<and> Number (toNumber env) (part (commandParts st) 2) = Fin 0)
         \<or> (\<exists>i. targetId st = Some i \<and> findItemById st i = None)"
  shows "runCommand env st = st\<lparr>commandState := Fail\<rparr>"
proof -
  let ?st = "st\<lparr>commandState := Idle\<rparr>"
  have "targetId ?st = None \<or> targetId ?st = Some []
         \<or> \<not> isFinite (Number (toNumber env) (part (commandParts st) 1))
         \<or> (3 \<le> length (commandParts st) \<and> \<not> isFinite (Number (toNumber env) (part (commandParts st) 2)))
         \<or> Number (toNumber env) (part (commandParts st) 1) = Fin 0
         \<or> (3 \<le> length (commandParts st) \<and> Number (toNumber env) (part (commandParts st) 2) = Fin 0)
         \<or> (\<exists>i. targetId ?st = Some i \<and> findItemById ?st i = None)"
    using assms(2) by (simp add: targetId_commandState findItemById_commandState)
  from cmdScale_throws [OF this] obtain e where
    "cmdScale (arith env) (toNumber env) (commandParts st) ?st = (Some e, ?st)" by blast
  then show ?thesis using assms(1) by (simp add: runCommand_def Let_def caught_throw)
qed

lemma runCommand_rotate_fails:
  assumes "commandVerb st = ''rotate''"
    and "targetId st = None \<or> targetId st = Some []
         \<or> \<not> isFinite (Number (toNumber env) (part (commandParts st) 1))
         \<or> (\<exists>i. targetId st = Some i \<and> findItemById st i = None)"
  shows "runCommand env st = st\<lparr>commandState := Fail\<rparr>"
proof -
  let ?st = "st\<lparr>commandState := Idle\<rparr>"
  have "targetId ?st = None \<or> targetId ?st = Some []
         \<or> \<not> isFinite (Number (toNumber env) (part (commandParts st) 1))
         \<or> (\<exists>i. targetId ?st = Some i \<and> findItemById ?st i = None)"
    using assms(2) by (simp add: targetId_commandState findItemById_commandState)
  from cmdRotate_throws [OF this] obtain e where
    "cmdRotate (arith env) (toNumber env) (commandParts st) ?st = (Some e, ?st)" by blast
  then show ?thesis using assms(1) by (simp add: runCommand_def Let_def caught_throw)
qed

lemma missing_part: "length parts \<le> k \<Longrightarrow> \<not> isFinite (Number conv (part parts k))"
  by (simp add: part_def)

section \<open>Example evaluations\<close>






lemma words_of_line:
  "commandParts (segmentState cmd) = splitWs [] (trim cmd)"
  by (simp add: commandParts_def segmentState_def state0_def)

section \<open>The minimum-points invariant\<close>



section \<open>Commands\<close>

text \<open>
  Claim C7: a command that fails sets the status \<open>Fail\<close> and changes nothing else of the
  state: the result is the state before the command with that status. This holds for a
  verb that is not a command; for \<open>move\<close>, \<open>scale\<close> and \<open>rotate\<close> without a target
  item (no selection, or a selection that names no item of the list); for \<open>move\<close>
  with a first or second argument that is missing or not a finite number; for \<open>scale\<close>
  with a first argument, or a second one when given, that is missing, not a finite number
  or zero; and for \<open>rotate\<close> with an argument that is missing or not a finite number.
\<close>

theorem runCommand_failure:
  "(commandVerb st \<notin> {''clear'', ''delete'', ''copy'', ''export'', ''refresh-json'',
        ''apply-json'', ''fit'', ''move'', ''scale'', ''rotate'', []} \<longrightarrow>
      runCommand env st = st\<lparr>commandState := Fail\<rparr>)
 \<and> (commandVerb st \<in> {''move'', ''scale'', ''rotate''} \<and>
      (targetId st = None \<or> targetId st = Some [] \<or>
       (\<exists>i. targetId st = Some i \<and> findItemById st i = None)) \<longrightarrow>
      runCommand env st = st\<lparr>commandState := Fail\<rparr>)
 \<and> (commandVerb st = ''move'' \<and>
      (length (commandParts st) < 3 \<or>
       \<not> isFinite (Number (toNumber env) (part (commandParts st) 1)) \<or>
       \<not> isFinite (Number (toNumber env) (part (commandParts st) 2))) \<longrightarrow>
      runCommand env st = st\<lparr>commandState := Fail\<rparr>)
 \<and> (commandVerb st = ''scale'' \<and>
      (length (commandParts st) < 2 \<or>
       \<not> isFinite (Number (toNumber env) (part (commandParts st) 1)) \<or>
       Number (toNumber env) (part (commandParts st) 1) = Fin 0 \<or>
       (3 \<le> length (commandParts st) \<and>
          (\<not> isFinite (Number (toNumber env) (part (commandParts st) 2)) \<or>
           Number (toNumber env) (part (commandParts st) 2) = Fin 0))) \<longrightarrow>
      runCommand env st = st\<lparr>commandState := Fail\<rparr>)
 \<and> (commandVerb st = ''rotate'' \<and>
      (length (commandParts st) < 2 \<or>
       \<not> isFinite (Number (toNumber env) (part (commandParts st) 1))) \<longrightarrow>
      runCommand env st = st\<lparr>commandState := Fail\<rparr>)"
proof (intro conjI impI)
  assume "commandVerb st \<notin> {''clear'', ''delete'', ''copy'', ''export'', ''refresh-json'',
        ''apply-json'', ''fit'', ''move'', ''scale'', ''rotate'', []}"
  then show "runCommand env st = st\<lparr>commandState := Fail\<rparr>" by (rule runCommand_unknown)
next
  assume a: "commandVerb st \<in> {''move'', ''scale'', ''rotate''} \<and>
      (targetId st = None \<or> targetId st = Some [] \<or>
       (\<exists>i. targetId st = Some i \<and> findItemById st i = None))"
  then consider "commandVerb st = ''move''" | "commandVerb st = ''scale''" | "commandVerb st = ''rotate''"
    by blast
  then show "runCommand env st = st\<lparr>commandState := Fail\<rparr>"
  proof cases
    case 1
    then show ?thesis using a runCommand_move_fails [of st env] by blast
  next
    case 2
    then show ?thesis using a runCommand_scale_fails [of st env] by blast
  next
    case 3
    then show ?thesis using a runCommand_rotate_fails [of st env] by blast
  qed
next
  assume a: "commandVerb st = ''move'' \<and>
      (length (commandParts st) < 3 \<or>
       \<not> isFinite (Number (toNumber env) (part (commandParts st) 1)) \<or>
       \<not> isFinite (Number (toNumber env) (part (commandParts st) 2)))"
  have "length (commandParts st) < 3 \<Longrightarrow>
        \<not> isFinite (Number (toNumber env) (part (commandParts st) 2))"
    by (rule missing_part) simp
  with a show "runCommand env st = st\<lparr>commandState := Fail\<rparr>"
    using runCommand_move_fails [of st env] by blast
next
  assume a: "commandVerb st = ''scale'' \<and>
      (length (commandParts st) < 2 \<or>
       \<not> isFinite (Number (toNumber env) (part (commandParts st) 1)) \<or>
       Number (toNumber env) (part (commandParts st) 1) = Fin 0 \<or>
       (3 \<le> length (commandParts st) \<and>
          (\<not> isFinite (Number (toNumber env) (part (commandParts st) 2)) \<or>
           Number (toNumber env) (part (commandParts st) 2) = Fin 0)))"
  have "length (commandParts st) < 2 \<Longrightarrow>
        \<not> isFinite (Number (toNumber env) (part (commandParts st) 1))"
    by (rule missing_part) simp
  with a show "runCommand env st = st\<lparr>commandState := Fail\<rparr>"
    using runCommand_scale_fails [of st env] by blast
next
  assume a: "commandVerb st = ''rotate'' \<and>
      (length (commandParts st) < 2 \<or>
       \<not> isFinite (Number (toNumber env) (part (commandParts st) 1)))"
  have "length (commandParts st) < 2 \<Longrightarrow>
        \<not> isFinite (Number (toNumber env) (part (commandParts st) 1))"
    by (rule missing_part) simp
  with a show "runCommand env st = st\<lparr>commandState := Fail\<rparr>"
    using runCommand_rotate_fails [of st env] by blast
qed

lemma verb_of_line:
  "commandVerb (segmentState cmd) =
     toLowerCase (case splitWs [] (trim cmd) of [] \<Rightarrow> [] | c # _ \<Rightarrow> c)"
  by (simp add: commandVerb_def words_of_line)

theorem runCommand_failure_witness:
  "runCommand env0 (segmentState ''frobnicate 1 2'') = (segmentState ''frobnicate 1 2'')\<lparr>commandState := Fail\<rparr>
   \<and> runCommand env0 (segmentState ''move 5'') = (segmentState ''move 5'')\<lparr>commandState := Fail\<rparr>
   \<and> runCommand env0 (segmentState ''scale 0'') = (segmentState ''scale 0'')\<lparr>commandState := Fail\<rparr>
   \<and> runCommand env0 (segmentState ''rotate x'') = (segmentState ''rotate x'')\<lparr>commandState := Fail\<rparr>
   \<and> runCommand env0 (state0\<lparr>commandLine := ''move 1 2''\<rparr>) = state0\<lparr>commandLine := ''move 1 2'', commandState := Fail\<rparr>"
proof -
  have v1: "commandVerb (segmentState ''frobnicate 1 2'') = ''frobnicate''"
    by (simp add: verb_of_line trim_def is_space_def toLowerCase_def lower_char_def)
  have v2: "commandVerb (segmentState ''move 5'') = ''move'' \<and> length (commandParts (segmentState ''move 5'')) < 3"
    by (simp add: verb_of_line words_of_line trim_def is_space_def toLowerCase_def lower_char_def)
  have v3: "commandVerb (segmentState ''scale 0'') = ''scale''
            \<and> Number (toNumber env0) (part (commandParts (segmentState ''scale 0'')) 1) = Fin 0"
    by (simp add: verb_of_line words_of_line trim_def is_space_def toLowerCase_def lower_char_def
        part_def env0_def decimalNumber_def digit_value_def)
  have v4: "commandVerb (segmentState ''rotate x'') = ''rotate''
            \<and> \<not> isFinite (Number (toNumber env0) (part (commandParts (segmentState ''rotate x'')) 1))"
    by (simp add: verb_of_line words_of_line trim_def is_space_def toLowerCase_def lower_char_def
        part_def env0_def decimalNumber_def digit_value_def)
  have v5: "commandVerb (state0\<lparr>commandLine := ''move 1 2''\<rparr>) = ''move''
            \<and> targetId (state0\<lparr>commandLine := ''move 1 2''\<rparr>) = None"
    by (simp add: commandVerb_def commandParts_def state0_def targetId_def trim_def is_space_def
        toLowerCase_def lower_char_def)
  show ?thesis
    using runCommand_failure [of "segmentState ''frobnicate 1 2''" env0] v1
      runCommand_failure [of "segmentState ''move 5''" env0] v2
      runCommand_failure [of "segmentState ''scale 0''" env0] v3
      runCommand_failure [of "segmentState ''rotate x''" env0] v4
      runCommand_failure [of "state0\<lparr>commandLine := ''move 1 2''\<rparr>" env0] v5
    by simp
qed

section \<open>The normaliser and points that are not finite\<close>

lemma coercePair_finite: "coercePair conv x y = Some p \<Longrightarrow> finitePoint p"
  by (auto simp: coercePair_def Let_def finitePoint_def split: if_splits)

lemma finite_number_finite: "finite_number v = Some n \<Longrightarrow> isFinite n"
  by (cases v) (auto split: if_splits)

text \<open>The array branch of \<open>normalizePoint\<close> returns finite points only.\<close>

lemma normalizePoint_pair_finite:
  "normalizePoint conv (JArr [x, y]) = Some p \<Longrightarrow> finitePoint p"
  by (auto simp: normalizePoint_def finitePoint_def
      split: option.splits dest: coercePair_finite finite_number_finite)

lemma digits36_1: "digits_in 36 (Suc 0) = ''1''"
  by (simp add: digits_in.simps [of 36 "Suc 0"] digit_char_def)

lemma infinitePointDoc_items:
  "normalizePolylines conv infinitePointDoc 0 = ([infinitePointItem], Suc 0)"
  by (simp add: normalizePoint_def normalizePolylines_def infinitePointDoc_def
      normalizePolylineItemLike_def normalizePolylinePointsLike_def nextPolylineId_def
      normalizeLineOverride_def normalizeEntityIndex_def normalizeLayer_def normalizeType_def
      infinitePointItem_def digits36_1)

text \<open>
  Claim C1 is not met by the code. The record branch of \<open>normalizePoint\<close> tests only
  that \<open>x\<close> and \<open>y\<close> are numbers, so the point \<open>{x: Infinity, y: 0}\<close> is kept as it
  is, and \<open>normalizePolylines\<close> returns an item whose first point is not finite.
\<close>

theorem normalizePoint_record_infinite:
  "normalizePoint conv (JObj [(''x'', JNum PInf), (''y'', JNum (Fin 0))]) = Some (PInf, Fin 0)
   \<and> normalizePolylines conv infinitePointDoc 0 = ([infinitePointItem], 1)
   \<and> \<not> list_all finitePoint (points infinitePointItem)"
  using infinitePointDoc_items [of conv]
  by (simp add: normalizePoint_def infinitePointItem_def finitePoint_def)


section \<open>JSON round trip\<close>

lemma json_image_item_defined: "json_image (exportItem it) \<noteq> JUndefined"
  by (simp add: exportItem_def)

lemma export_polylines:
  "getProp (asRecord (json_image (exportValue st))) ''polylines'' =
     JArr (map (\<lambda>it. json_image (exportItem it)) (visibleItems st))"
  by (simp add: exportValue_def comp_def json_image_item_defined)

lemma normalize_export:
  "normalizePolylines conv (json_image (exportValue st)) seq =
     normalizeEach conv (map (\<lambda>it. json_image (exportItem it)) (visibleItems st)) seq"
proof -
  have "\<exists>kvs. json_image (exportValue st) = JObj kvs" by (simp add: exportValue_def)
  then obtain kvs where k: "json_image (exportValue st) = JObj kvs" by blast
  have "getProp (asRecord (JObj kvs)) ''polylines'' =
        JArr (map (\<lambda>it. json_image (exportItem it)) (visibleItems st))"
    using export_polylines [of st] k by simp
  then show ?thesis by (simp add: normalizePolylines_def k)
qed


lemma layers_of_infinite:
  "polylineLayerCounts (st\<lparr>polylineItems := [infinitePointItem]\<rparr>) = [(''0'', 1)]"
  by (simp add: polylineLayerCounts_def infinitePointItem_def)

lemma appliedInfinite_state:
  "polylineItems (appliedInfinite conv) = [infinitePointItem]
   \<and> selectedLayers (appliedInfinite conv) = [''0'']
   \<and> jsonState (appliedInfinite conv) = Ok"
proof -
  have d: "asRecord infinitePointDoc \<noteq> None \<and> asRecord (getProp (asRecord infinitePointDoc) ''layers'') = None"
    by (simp add: infinitePointDoc_def)
  note n = infinitePointDoc_items [of conv]
  have l: "normalizeLayer (JStr ''0'') = ''0''"
    by (simp add: normalizeLayer_def trimmed_or_def trim_def is_space_def)
  show ?thesis
    unfolding appliedInfinite_def applyJsonDraft_def
    by (simp add: n d Let_def initLayerStateFromItems_def polylineLayerCounts_def
        infinitePointItem_def ensureLayerStyle_def l state0_def)
qed

lemma appliedInfinite_visible: "visibleItems (appliedInfinite conv) = [infinitePointItem]"
  using appliedInfinite_state [of conv]
  by (simp add: visibleItems_def visiblePolylineItems_def infinitePointItem_def)

text \<open>
  Claim C3 is not met by the code, through the defect of claim C1. Applying the document
  with the point \<open>{x: Infinity, y: 0}\<close> makes an item whose first point is
  \<open>(Infinity, 0)\<close>. The export writes that coordinate as \<open>null\<close>, and normalising the
  exported document reads \<open>null\<close> as 0: the item comes back with the first point
  \<open>(0, 0)\<close>, so the list that comes back differs from the exported one.
\<close>

theorem roundtrip_infinite_point:
  "visibleItems (appliedInfinite conv) = [infinitePointItem]
   \<and> map_option (\<lambda>d. fst (normalizePolylines conv d 1)) (exportJson (appliedInfinite conv)) =
       Some [infinitePointItem\<lparr>points := [(Fin 0, Fin 0), (Fin 0, Fin 0), (Fin 1, Fin 1)]\<rparr>]
   \<and> [infinitePointItem\<lparr>points := [(Fin 0, Fin 0), (Fin 0, Fin 0), (Fin 1, Fin 1)]\<rparr>]
       \<noteq> visibleItems (appliedInfinite conv)"
proof -
  have e: "json_image (exportItem infinitePointItem) =
           JObj [(''id'', JStr ''json-1''), (''layer'', JStr ''0''), (''type'', JStr ''POLYLINE''),
                 (''points'', JArr [JArr [JNull, JNum (Fin 0)], JArr [JNum (Fin 0), JNum (Fin 0)],
                                    JArr [JNum (Fin 1), JNum (Fin 1)]]),
                 (''visible'', JBool True)]"
    by (simp add: exportItem_def infinitePointItem_def pointJson_def opt_json_def)
  have n: "normalizeEach conv [json_image (exportItem infinitePointItem)] 1 =
           ([infinitePointItem\<lparr>points := [(Fin 0, Fin 0), (Fin 0, Fin 0), (Fin 1, Fin 1)]\<rparr>], 1)"
    unfolding e
    by (simp add: normalizePoint_def coercePair_def normalizePolylineItemLike_def
        normalizePolylinePointsLike_def normalizeLineOverride_def normalizeEntityIndex_def
        normalizeLayer_def normalizeType_def trimmed_or_def trim_def is_space_def
        infinitePointItem_def Let_def)
  show ?thesis
    using appliedInfinite_visible [of conv] n
    by (simp add: exportJson_def normalize_export infinitePointItem_def)
qed

section \<open>Fit to content on degenerate bounds\<close>

lemma contentBounds_not_finite:
  "\<not> (isFinite (minX b) \<and> isFinite (minY b) \<and> isFinite (maxX b) \<and> isFinite (maxY b)) \<Longrightarrow>
   contentBounds ar svg b padRatio = None"
  by (simp add: contentBounds_def)

lemma padOf_zero:
  "padOf ar (Fin 0) (Fin 0) padRatio =
     fl_mul ar (Fin 100)
       (if isFinite padRatio then num_max (Fin 0) (num_min (Fin (1 / 2)) padRatio) else Fin dbl_0_05)"
  by (simp add: padOf_def)

lemma contentBounds_point:
  assumes "rnd ar 0 = Fin 0"
  shows "contentBounds ar svg \<lparr>minX = Fin cx, minY = Fin cy, maxX = Fin cx, maxY = Fin cy\<rparr> padRatio =
     (let pad = fl_mul ar (Fin 100)
                  (if isFinite padRatio then num_max (Fin 0) (num_min (Fin (1 / 2)) padRatio)
                   else Fin dbl_0_05);
          padded = \<lparr>minX = fl_sub ar (Fin cx) pad, minY = fl_sub ar (Fin cy) pad,
                    maxX = fl_add ar (Fin cx) pad, maxY = fl_add ar (Fin cy) pad\<rparr>;
          w = fl_sub ar (maxX padded) (minX padded);
          h = fl_sub ar (maxY padded) (minY padded)
      in if \<not> isFinite w \<or> \<not> isFinite h \<or> num_le w (Fin 0) \<or> num_le h (Fin 0) then None
         else Some (letterbox ar svg padded w h))"
proof -
  have z: "fl_sub ar (Fin cx) (Fin cx) = Fin 0" "fl_sub ar (Fin cy) (Fin cy) = Fin 0"
    using assms by (simp_all add: fl_sub_def)
  show ?thesis
    by (simp add: contentBounds_def ordered_def z padOf_zero)
qed

lemma fitToContent_empty:
  assumes "concat (map points (visibleItems st)) = []"
    and "bboxBounds st = None \<or> selectedLayers st = []
         \<or> length (remdups (selectedLayers st)) \<noteq> length (polylineLayerCounts st)"
  shows "fitToContent ar svg st = st\<lparr>viewBounds := defaultBounds\<rparr>"
  using assms by (auto simp: fitToContent_def Let_def split: option.splits)

text \<open>
  Claim C6 as stated: content bounds with an edge that is not finite, or of zero area, make
  \<open>setViewToContentBounds\<close> store the default window from 0 to 100 on both axes. It
  fails: on bounds with an edge that is not finite the function returns at once, and a
  viewport from 0 to 50 stays as it is.
\<close>

theorem degenerate_fit_counterexample:
  "\<not> (\<forall>ar svg b padRatio st.
         (\<not> (isFinite (minX b) \<and> isFinite (minY b) \<and> isFinite (maxX b) \<and> isFinite (maxY b))
          \<or> (minX b = maxX b \<and> minY b = maxY b)) \<longrightarrow>
         viewBounds (setViewToContentBounds ar svg b padRatio st) = defaultBounds)"
proof
  assume a: "\<forall>ar svg b padRatio st.
         (\<not> (isFinite (minX b) \<and> isFinite (minY b) \<and> isFinite (maxX b) \<and> isFinite (maxY b))
          \<or> (minX b = maxX b \<and> minY b = maxY b)) \<longrightarrow>
         viewBounds (setViewToContentBounds ar svg b padRatio st) = defaultBounds"
  let ?b = "\<lparr>minX = NaN, minY = Fin 0, maxX = Fin 1, maxY = Fin 1\<rparr>"
  have "viewBounds (setViewToContentBounds exact None ?b (Fin dbl_0_05) zoomedState) = defaultBounds"
    using a [rule_format, of ?b exact None "Fin dbl_0_05" zoomedState] by simp
  moreover have "setViewToContentBounds exact None ?b (Fin dbl_0_05) zoomedState = zoomedState"
    by (simp add: setViewToContentBounds_def contentBounds_def)
  ultimately show False by (simp add: zoomedState_def state0_def defaultBounds_def)
qed

text \<open>
  Claim C6, amended: when the content bounds given to \<open>setViewToContentBounds\<close> have an
  edge that is not finite, the viewport is left as it was: nothing is stored, so no NaN or
  Infinity reaches the viewport, and there is no fallback window. When they are a single
  finite point (zero area), the span used for the padding falls back to 100: the pad is 100
  times the pad ratio clamped to the range from 0 to 0.5 (0.05 when the ratio is not
  finite), the point is widened by the pad on every side, and the result is stored after
  the aspect adjustment, unless its width or height is not positive and finite, in which
  case the viewport is left as it was. The default window from 0 to 100 on both axes is
  what \<open>fitToContent\<close> stores when no visible item has a point and the stored bounding
  box is not used.
\<close>

theorem degenerate_fit:
  "(\<not> (isFinite (minX b) \<and> isFinite (minY b) \<and> isFinite (maxX b) \<and> isFinite (maxY b)) \<longrightarrow>
      setViewToContentBounds ar svg b padRatio st = st)
 \<and> (rnd ar 0 = Fin 0 \<longrightarrow>
      setViewToContentBounds ar svg \<lparr>minX = Fin cx, minY = Fin cy, maxX = Fin cx, maxY = Fin cy\<rparr>
        padRatio st =
      (let pad = fl_mul ar (Fin 100)
                   (if isFinite padRatio then num_max (Fin 0) (num_min (Fin (1 / 2)) padRatio)
                    else Fin (3602879701896397 / 72057594037927936));
           padded = \<lparr>minX = fl_sub ar (Fin cx) pad, minY = fl_sub ar (Fin cy) pad,
                     maxX = fl_add ar (Fin cx) pad, maxY = fl_add ar (Fin cy) pad\<rparr>;
           w = fl_sub ar (maxX padded) (minX padded);
           h = fl_sub ar (maxY padded) (minY padded)
       in if \<not> isFinite w \<or> \<not> isFinite h \<or> num_le w (Fin 0) \<or> num_le h (Fin 0) then st
          else st\<lparr>viewBounds := letterbox ar svg padded w h\<rparr>))
 \<and> (concat (map points (visibleItems st)) = [] \<and>
      (bboxBounds st = None \<or> selectedLayers st = []
       \<or> length (remdups (selectedLayers st)) \<noteq> length (polylineLayerCounts st)) \<longrightarrow>
      fitToContent ar svg st =
        st\<lparr>viewBounds := \<lparr>minX = Fin 0, minY = Fin 0, maxX = Fin 100, maxY = Fin 100\<rparr>\<rparr>)"
proof (intro conjI impI)
  assume "\<not> (isFinite (minX b) \<and> isFinite (minY b) \<and> isFinite (maxX b) \<and> isFinite (maxY b))"
  then show "setViewToContentBounds ar svg b padRatio st = st"
    by (simp add: setViewToContentBounds_def contentBounds_not_finite)
next
  assume z: "rnd ar 0 = Fin 0"
  show "setViewToContentBounds ar svg \<lparr>minX = Fin cx, minY = Fin cy, maxX = Fin cx, maxY = Fin cy\<rparr>
        padRatio st =
      (let pad = fl_mul ar (Fin 100)
                   (if isFinite padRatio then num_max (Fin 0) (num_min (Fin (1 / 2)) padRatio)
                    else Fin (3602879701896397 / 72057594037927936));
           padded = \<lparr>minX = fl_sub ar (Fin cx) pad, minY = fl_sub ar (Fin cy) pad,
                     maxX = fl_add ar (Fin cx) pad, maxY = fl_add ar (Fin cy) pad\<rparr>;
           w = fl_sub ar (maxX padded) (minX padded);
           h = fl_sub ar (maxY padded) (minY padded)
       in if \<not> isFinite w \<or> \<not> isFinite h \<or> num_le w (Fin 0) \<or> num_le h (Fin 0) then st
          else st\<lparr>viewBounds := letterbox ar svg padded w h\<rparr>)"
    unfolding setViewToContentBounds_def contentBounds_point [OF z]
    by (auto simp: Let_def dbl_0_05_def)
next
  assume "concat (map points (visibleItems st)) = [] \<and>
      (bboxBounds st = None \<or> selectedLayers st = []
       \<or> length (remdups (selectedLayers st)) \<noteq> length (polylineLayerCounts st))"
  then show "fitToContent ar svg st =
        st\<lparr>viewBounds := \<lparr>minX = Fin 0, minY = Fin 0, maxX = Fin 100, maxY = Fin 100\<rparr>\<rparr>"
    using fitToContent_empty [of st ar svg] by (simp add: defaultBounds_def)
qed

theorem degenerate_fit_witness:
  "setViewToContentBounds exact None \<lparr>minX = NaN, minY = Fin 0, maxX = Fin 1, maxY = Fin 1\<rparr>
     (Fin (1 / 2)) zoomedState = zoomedState
   \<and> viewBounds (setViewToContentBounds exact None
        \<lparr>minX = Fin 10, minY = Fin 10, maxX = Fin 10, maxY = Fin 10\<rparr> (Fin (1 / 2)) zoomedState) =
       \<lparr>minX = Fin (- 40), minY = Fin (- 40), maxX = Fin 60, maxY = Fin 60\<rparr>
   \<and> viewBounds (fitToContent exact None zoomedState) =
       \<lparr>minX = Fin 0, minY = Fin 0, maxX = Fin 100, maxY = Fin 100\<rparr>"
proof -
  let ?b = "\<lparr>minX = NaN, minY = Fin 0, maxX = Fin 1, maxY = Fin 1\<rparr>"
  note t = degenerate_fit [of ?b exact None "Fin (1 / 2)" zoomedState 10 10]
  have h1: "\<not> (isFinite (minX ?b) \<and> isFinite (minY ?b) \<and> isFinite (maxX ?b) \<and> isFinite (maxY ?b))"
    by simp
  have h2: "rnd exact 0 = Fin 0" by (simp add: exact_def)
  have h3: "concat (map points (visibleItems zoomedState)) = [] \<and>
      (bboxBounds zoomedState = None \<or> selectedLayers zoomedState = []
       \<or> length (remdups (selectedLayers zoomedState)) \<noteq> length (polylineLayerCounts zoomedState))"
    by (simp add: zoomedState_def state0_def visibleItems_def visiblePolylineItems_def)
  have c1: "setViewToContentBounds exact None ?b (Fin (1 / 2)) zoomedState = zoomedState"
    using t h1 by blast
  have c2: "viewBounds (setViewToContentBounds exact None
        \<lparr>minX = Fin 10, minY = Fin 10, maxX = Fin 10, maxY = Fin 10\<rparr> (Fin (1 / 2)) zoomedState) =
       \<lparr>minX = Fin (- 40), minY = Fin (- 40), maxX = Fin 60, maxY = Fin 60\<rparr>"
    using t [THEN conjunct2, THEN conjunct1, rule_format, OF h2]
    by (simp add: Let_def fl_mul_def fl_sub_def fl_add_def exact_def letterbox_def)
  have c3: "viewBounds (fitToContent exact None zoomedState) =
       \<lparr>minX = Fin 0, minY = Fin 0, maxX = Fin 100, maxY = Fin 100\<rparr>"
    using t [THEN conjunct2, THEN conjunct2, rule_format, OF h3] by simp
  show ?thesis using c1 c2 c3 by blast
qed

section \<open>Point insertion\<close>

















section \<open>The quarter turn\<close>







section \<open>The viewport invariant\<close>






lemma exact_exp: "fl_exp exact (Fin a) = Fin (exp a)"
  by (simp add: exact_def)





























end
